theory Spec2Isabelle
  imports Complex_Main "HOL-Library.Word"
begin

section \<open>The cuDNN depthwise layer: data model\<close>

text \<open>
  A shallow embedding of \<^verbatim>\<open>src/caffe/layers/cudnn_depthwise_layer.cpp\<close>.
  The template parameter \<^verbatim>\<open>Dtype\<close> (float or double) is the type variable \<open>'a\<close>;
  the layer only copies such values and stores the constants 0 and 1, so all that is
  asked of \<open>'a\<close> is that it has a zero and a one that differ.

  The \<^verbatim>\<open>int\<close> members hold counts and indices. Caffe bounds the count of every Blob
  by \<^verbatim>\<open>INT_MAX\<close>, and every index computed below is smaller than the count of the
  buffer it addresses, so they are natural numbers here. What C++ leaves undefined
  (a division by zero, an access outside a buffer, a second release of a resource)
  is an explicit error value of the model.
\<close>

datatype resource =
    HostArray string
  | CudaStream nat
  | CudnnHandle nat
  | FilterDesc
  | BottomDesc nat
  | TopDesc nat
  | ConvDesc nat
  | BiasDesc
  | DeviceMem "64 word"

datatype error =
    CheckFailed string
  | BackendError
  | DivisionByZero
  | OutOfBounds
  | DoubleRelease resource

type_synonym size_t = "64 word"

type_synonym ptr = "64 word"

record 'a Blob =
  cpu_data :: "'a list"
  cpu_diff :: "'a list"

text \<open>
  The members of the layer that the file reads or writes. The first group is inherited
  from \<^verbatim>\<open>DepthwiseLayer\<close>, whose \<^verbatim>\<open>LayerSetUp\<close> and \<^verbatim>\<open>Reshape\<close> fill them in before
  the code of this file runs; \<open>param_group\<close> is
  \<^verbatim>\<open>layer_param_.convolution_param().group()\<close>. Members of the base class that only
  feed the cuDNN descriptor setters (pads, strides, batch size, spatial sizes) are
  not represented: the answers of the backend are parameters of \<open>Reshape\<close>.
  Names drop the trailing underscore of the source; \<open>group_num\<close> is \<^verbatim>\<open>group_\<close> and
  \<open>mask_blob\<close> is \<^verbatim>\<open>mask_\<close>.

  The last field, \<open>live\<close>, is not a member: it is the table of resources (host
  arrays, streams, handles, descriptors, device memory) that the process currently
  holds, which \<^verbatim>\<open>new[]\<close>, the cuDNN and CUDA create calls and \<^verbatim>\<open>cudaMalloc\<close> extend
  and \<^verbatim>\<open>delete[]\<close>, the destroy calls and \<^verbatim>\<open>cudaFree\<close> shrink.
\<close>

record 'a CuDNNDepthwiseLayer =
  param_group :: nat
  channels :: nat
  num_output :: nat
  kernel_dim :: nat
  multiplier :: nat
  num_spatial_axes :: nat
  kernel_shape :: "nat list"
  bias_term :: bool
  bottom_dim :: nat
  top_dim :: nat
  blobs :: "'a Blob list"
  group_num :: nat
  weight_offset :: nat
  bottom_offset :: nat
  top_offset :: nat
  stream :: "resource list"
  handle :: "resource list"
  fwd_algo :: "nat list"
  bwd_filter_algo :: "nat list"
  bwd_data_algo :: "nat list"
  workspace_fwd_sizes :: "size_t list"
  workspace_bwd_filter_sizes :: "size_t list"
  workspace_bwd_data_sizes :: "size_t list"
  workspaceSizeInBytes :: size_t
  workspaceData :: ptr
  workspace :: "ptr list"
  filter_desc :: resource
  bottom_descs :: "resource list"
  top_descs :: "resource list"
  conv_descs :: "resource list"
  bias_desc :: resource
  caffe_weight :: "'a Blob"
  mask_blob :: "'a Blob"
  handles_setup :: bool
  live :: "resource list"

subsection \<open>Sequencing of fallible steps, counted loops\<close>

definition bindE :: "error + 'b \<Rightarrow> ('b \<Rightarrow> error + 'c) \<Rightarrow> error + 'c" where
  "bindE m f = (case m of Inl e \<Rightarrow> Inl e | Inr x \<Rightarrow> f x)"

text \<open>
  \<^verbatim>\<open>for (int i = 0; i < n; ++i) body(i)\<close>: the first \<open>n\<close> iterations are the first
  \<open>n - 1\<close> iterations followed by iteration \<open>n - 1\<close>; an error ends the loop.
\<close>

primrec for_loop :: "nat \<Rightarrow> (nat \<Rightarrow> 's \<Rightarrow> error + 's) \<Rightarrow> 's \<Rightarrow> error + 's" where
  "for_loop 0 body s = Inr s"
| "for_loop (Suc n) body s = bindE (for_loop n body s) (body n)"

section \<open>Layout translator\<close>

text \<open>
  The index arithmetic shared by \<^verbatim>\<open>CaffeToCuDNN\<close> and \<^verbatim>\<open>CuDNNToCaffe\<close>
  (lines 308--310 and 329--331):
  \<^verbatim>\<open>
    int j = i / this->multiplier_ % channels_per_group;
    int idx_cudnn = (i * channels_per_group + j) * this->kernel_dim_ + k;
    int idx_caffe = i * this->kernel_dim_ + k;
  \<close>
  with \<open>mult\<close> for \<^verbatim>\<open>multiplier_\<close>, \<open>cpg\<close> for \<^verbatim>\<open>channels_per_group\<close> and \<open>kd\<close> for
  \<^verbatim>\<open>kernel_dim_\<close>.
\<close>

definition slot_j :: "nat \<Rightarrow> nat \<Rightarrow> nat \<Rightarrow> nat" where
  "slot_j mult cpg i = i div mult mod cpg"

definition idx_cudnn :: "nat \<Rightarrow> nat \<Rightarrow> nat \<Rightarrow> nat \<Rightarrow> nat \<Rightarrow> nat" where
  "idx_cudnn mult cpg kd i k =
     (i * cpg + slot_j mult cpg i) * kd + k"

definition idx_caffe :: "nat \<Rightarrow> nat \<Rightarrow> nat \<Rightarrow> nat" where
  "idx_caffe kd i k = i * kd + k"

text \<open>
  Modelled from the spec: \<^verbatim>\<open>caffe_set\<close> is one of Caffe's math functions, whose source is
  not part of the file modelled here. \<^verbatim>\<open>caffe_set(N, alpha, Y)\<close> stores \<open>alpha\<close> in
  \<open>Y[0], ..., Y[N-1]\<close> (the spec's "memset before the pass", for \<open>alpha = 0\<close>).
\<close>

definition caffe_set :: "nat \<Rightarrow> 'a \<Rightarrow> 'a list \<Rightarrow> error + 'a list" where
  "caffe_set N alpha Y =
     (if N \<le> length Y then Inr (replicate N alpha @ drop N Y) else Inl OutOfBounds)"

text \<open>
  The body of the inner loop of \<^verbatim>\<open>CaffeToCuDNN\<close> (lines 308--313). The loop state
  is the three buffers written through
  \<^verbatim>\<open>cudnn_data\<close>, \<^verbatim>\<open>cudnn_diff\<close> and \<^verbatim>\<open>mask_data\<close>.
\<close>

definition CaffeToCuDNN_body ::
  "nat \<Rightarrow> nat \<Rightarrow> nat \<Rightarrow> 'a list \<Rightarrow> 'a list \<Rightarrow> nat \<Rightarrow> nat \<Rightarrow>
   ('a::zero_neq_one) list \<times> 'a list \<times> 'a list \<Rightarrow> error + ('a list \<times> 'a list \<times> 'a list)"
where
  "CaffeToCuDNN_body mult cpg kd caffe_data caffe_diff i k =
     (\<lambda>(cudnn_data, cudnn_diff, mask_data).
        if mult = 0 \<or> cpg = 0 then Inl DivisionByZero
        else
          let ic = idx_cudnn mult cpg kd i k;
              ia = idx_caffe kd i k
          in if ia < length caffe_data \<and> ia < length caffe_diff \<and>
                ic < length cudnn_data \<and> ic < length cudnn_diff \<and> ic < length mask_data
             then Inr (cudnn_data[ic := caffe_data ! ia],
                       cudnn_diff[ic := caffe_diff ! ia],
                       mask_data[ic := 1])
             else Inl OutOfBounds)"

text \<open>The body of the inner loop of \<^verbatim>\<open>CuDNNToCaffe\<close> (lines 329--333).\<close>

definition CuDNNToCaffe_body ::
  "nat \<Rightarrow> nat \<Rightarrow> nat \<Rightarrow> 'a list \<Rightarrow> 'a list \<Rightarrow> nat \<Rightarrow> nat \<Rightarrow>
   'a list \<times> 'a list \<Rightarrow> error + ('a list \<times> 'a list)"
where
  "CuDNNToCaffe_body mult cpg kd cudnn_data cudnn_diff i k =
     (\<lambda>(caffe_data, caffe_diff).
        if mult = 0 \<or> cpg = 0 then Inl DivisionByZero
        else
          let ic = idx_cudnn mult cpg kd i k;
              ia = idx_caffe kd i k
          in if ic < length cudnn_data \<and> ic < length cudnn_diff \<and>
                ia < length caffe_data \<and> ia < length caffe_diff
             then Inr (caffe_data[ia := cudnn_data ! ic],
                       caffe_diff[ia := cudnn_diff ! ic])
             else Inl OutOfBounds)"

text \<open>
  \<^verbatim>\<open>CaffeToCuDNN\<close> (lines 292--317): nothing happens without parameters; otherwise
  the three backend buffers are zeroed over
  \<open>N = num_output * channels_per_group * kernel_dim\<close> entries and the compact
  weights are scattered into them.
\<close>

definition CaffeToCuDNN ::
  "('a::zero_neq_one) CuDNNDepthwiseLayer \<Rightarrow> error + 'a CuDNNDepthwiseLayer"
where
  "CaffeToCuDNN s =
     (if length (blobs s) > 0 then
        let caffe_data = cpu_data (caffe_weight s);
            caffe_diff = cpu_diff (caffe_weight s);
            cudnn_data = cpu_data (blobs s ! 0);
            cudnn_diff = cpu_diff (blobs s ! 0);
            mask_data = cpu_data (mask_blob s)
        in if group_num s = 0 then Inl DivisionByZero
           else
             let channels_per_group = channels s div group_num s;
                 N = num_output s * channels_per_group * kernel_dim s
             in bindE (caffe_set N 0 cudnn_data) (\<lambda>cudnn_data.
                bindE (caffe_set N 0 cudnn_diff) (\<lambda>cudnn_diff.
                bindE (caffe_set N 0 mask_data) (\<lambda>mask_data.
                bindE (for_loop (num_output s) (\<lambda>i.
                         for_loop (kernel_dim s)
                           (CaffeToCuDNN_body (multiplier s) channels_per_group (kernel_dim s)
                              caffe_data caffe_diff i))
                         (cudnn_data, cudnn_diff, mask_data))
                  (\<lambda>(cudnn_data, cudnn_diff, mask_data).
                     Inr (s\<lparr>blobs := (blobs s)[0 := \<lparr>cpu_data = cudnn_data, cpu_diff = cudnn_diff\<rparr>],
                            mask_blob := (mask_blob s)\<lparr>cpu_data := mask_data\<rparr>\<rparr>)))))
      else Inr s)"

text \<open>\<^verbatim>\<open>CuDNNToCaffe\<close> (lines 320--337): the copy in the other direction.\<close>

definition CuDNNToCaffe ::
  "'a CuDNNDepthwiseLayer \<Rightarrow> error + 'a CuDNNDepthwiseLayer"
where
  "CuDNNToCaffe s =
     (if length (blobs s) > 0 then
        let cudnn_data = cpu_data (blobs s ! 0);
            cudnn_diff = cpu_diff (blobs s ! 0);
            caffe_data = cpu_data (caffe_weight s);
            caffe_diff = cpu_diff (caffe_weight s)
        in if group_num s = 0 then Inl DivisionByZero
           else
             let channels_per_group = channels s div group_num s
             in bindE (for_loop (num_output s) (\<lambda>i.
                         for_loop (kernel_dim s)
                           (CuDNNToCaffe_body (multiplier s) channels_per_group (kernel_dim s)
                              cudnn_data cudnn_diff i))
                         (caffe_data, caffe_diff))
                  (\<lambda>(caffe_data, caffe_diff).
                     Inr (s\<lparr>caffe_weight := \<lparr>cpu_data = caffe_data, cpu_diff = caffe_diff\<rparr>\<rparr>))
      else Inr s)"

text \<open>
  The shapes that \<^verbatim>\<open>LayerSetUp\<close> gives the buffers: the compact blob holds one
  kernel per output channel, the backend blob and the mask hold
  \<open>channels / group\<close> kernels per output channel.
\<close>

definition valid_config :: "'a CuDNNDepthwiseLayer \<Rightarrow> bool" where
  "valid_config s \<longleftrightarrow>
     0 < multiplier s \<and> 0 < channels s div group_num s \<and> 0 < kernel_dim s"

definition weights_bound :: "'a CuDNNDepthwiseLayer \<Rightarrow> bool" where
  "weights_bound s \<longleftrightarrow>
     blobs s \<noteq> [] \<and>
     length (cpu_data (caffe_weight s)) = num_output s * kernel_dim s \<and>
     length (cpu_diff (caffe_weight s)) = num_output s * kernel_dim s \<and>
     length (cpu_data (blobs s ! 0)) = num_output s * (channels s div group_num s) * kernel_dim s \<and>
     length (cpu_diff (blobs s ! 0)) = num_output s * (channels s div group_num s) * kernel_dim s \<and>
     length (cpu_data (mask_blob s)) = num_output s * (channels s div group_num s) * kernel_dim s"

text \<open>
  The effect of a loop nest that stores \<open>val i k\<close> at index \<open>dst i k\<close>, as a pure
  function of the buffer: \<open>scatter\<close> is one row of \<open>m\<close> stores, \<open>scatter_rows\<close> is
  \<open>n\<close> rows of \<open>kd\<close> stores each.
\<close>

primrec scatter :: "(nat \<Rightarrow> nat) \<Rightarrow> (nat \<Rightarrow> 'a) \<Rightarrow> nat \<Rightarrow> 'a list \<Rightarrow> 'a list" where
  "scatter dst val 0 buf = buf"
| "scatter dst val (Suc m) buf = (scatter dst val m buf)[dst m := val m]"

primrec scatter_rows ::
  "(nat \<Rightarrow> nat \<Rightarrow> nat) \<Rightarrow> (nat \<Rightarrow> nat \<Rightarrow> 'a) \<Rightarrow> nat \<Rightarrow> nat \<Rightarrow> 'a list \<Rightarrow> 'a list"
where
  "scatter_rows dst val kd 0 buf = buf"
| "scatter_rows dst val kd (Suc n) buf = scatter (dst n) (val n) kd (scatter_rows dst val kd n buf)"

section \<open>Serialization\<close>

text \<open>
  \<^verbatim>\<open>ToProto\<close> (lines 274--289). \<^verbatim>\<open>Blob::ToProto\<close> belongs to Caffe's Blob class and is
  a parameter here: \<open>blob_to_proto write_diff b\<close> is the message it produces for the
  blob \<open>b\<close>. The result is the layer, whose compact blob has been refreshed, and the
  list of blob messages that \<^verbatim>\<open>param->add_blobs()\<close> has appended to the cleared
  parameter.
\<close>

definition ToProto ::
  "(bool \<Rightarrow> 'a Blob \<Rightarrow> 'p) \<Rightarrow> bool \<Rightarrow> 'a CuDNNDepthwiseLayer \<Rightarrow>
   error + ('a CuDNNDepthwiseLayer \<times> 'p list)"
where
  "ToProto blob_to_proto write_diff s =
     (if length (blobs s) > 0 then
        bindE (CuDNNToCaffe s) (\<lambda>s.
          Inr (s, blob_to_proto write_diff (caffe_weight s) #
                  map (\<lambda>i. blob_to_proto write_diff (blobs s ! i)) [1..<length (blobs s)]))
      else Inr (s, []))"

section \<open>Algorithm and workspace planning\<close>

text \<open>
  What cuDNN answers for one bottom blob in \<^verbatim>\<open>Reshape\<close> (lines 137--178): the three
  algorithms it selects under the workspace limit and the workspace size of each.
\<close>

record plan =
  plan_fwd_algo :: nat
  plan_fwd_size :: size_t
  plan_bwd_filter_algo :: nat
  plan_bwd_filter_size :: size_t
  plan_bwd_data_algo :: nat
  plan_bwd_data_size :: size_t

text \<open>
  The environment of one \<^verbatim>\<open>Reshape\<close> call: \<open>plans i\<close> is the answer for bottom \<open>i\<close>,
  or \<open>None\<close> when one of the descriptor setters or queries of that iteration
  reports an error (which \<^verbatim>\<open>CUDNN_CHECK\<close> makes fatal); \<open>bias_desc_ok\<close> tells whether
  setting the bias descriptor succeeds; \<open>cudaMalloc n\<close> is the device address that
  an allocation of \<open>n\<close> bytes returns, or \<open>None\<close> when it fails.
\<close>

record backend =
  plans :: "nat \<Rightarrow> plan option"
  bias_desc_ok :: bool
  cudaMalloc :: "size_t \<Rightarrow> ptr option"

definition CUDNN_STREAMS_DEPTHWISE :: nat where
  "CUDNN_STREAMS_DEPTHWISE = 3"

text \<open>The zero-workspace algorithms, by their values in \<^verbatim>\<open>cudnn.h\<close>.\<close>

definition CUDNN_CONVOLUTION_FWD_ALGO_IMPLICIT_GEMM :: nat where
  "CUDNN_CONVOLUTION_FWD_ALGO_IMPLICIT_GEMM = 0"

definition CUDNN_CONVOLUTION_BWD_FILTER_ALGO_0 :: nat where
  "CUDNN_CONVOLUTION_BWD_FILTER_ALGO_0 = 0"

definition CUDNN_CONVOLUTION_BWD_DATA_ALGO_0 :: nat where
  "CUDNN_CONVOLUTION_BWD_DATA_ALGO_0 = 0"

text \<open>
  Releasing a resource that the process no longer holds is undefined behaviour
  (\<^verbatim>\<open>delete[]\<close> of a freed array, a destroy call on a destroyed handle); the model
  makes it the error \<open>DoubleRelease\<close>. \<^verbatim>\<open>cudaFree(NULL)\<close> does nothing.
\<close>

definition release :: "resource \<Rightarrow> 'a CuDNNDepthwiseLayer \<Rightarrow> error + 'a CuDNNDepthwiseLayer" where
  "release r s =
     (if r \<in> set (live s) then Inr (s\<lparr>live := remove1 r (live s)\<rparr>)
      else Inl (DoubleRelease r))"

definition cudaFree :: "ptr \<Rightarrow> 'a CuDNNDepthwiseLayer \<Rightarrow> error + 'a CuDNNDepthwiseLayer" where
  "cudaFree p s = (if p = 0 then Inr s else release (DeviceMem p) s)"

text \<open>One iteration of the first loop of \<^verbatim>\<open>Reshape\<close> (lines 136--179).\<close>

definition Reshape_query ::
  "backend \<Rightarrow> nat \<Rightarrow> 'a CuDNNDepthwiseLayer \<Rightarrow> error + 'a CuDNNDepthwiseLayer"
where
  "Reshape_query be i s =
     (if i < length (bottom_descs s) \<and> i < length (top_descs s) \<and> i < length (conv_descs s) \<and>
         i < length (fwd_algo s) \<and> i < length (workspace_fwd_sizes s) \<and>
         i < length (bwd_filter_algo s) \<and> i < length (workspace_bwd_filter_sizes s) \<and>
         i < length (bwd_data_algo s) \<and> i < length (workspace_bwd_data_sizes s)
      then (case plans be i of
              None \<Rightarrow> Inl BackendError
            | Some pl \<Rightarrow>
                Inr (s\<lparr>fwd_algo := (fwd_algo s)[i := plan_fwd_algo pl],
                       workspace_fwd_sizes := (workspace_fwd_sizes s)[i := plan_fwd_size pl],
                       bwd_filter_algo := (bwd_filter_algo s)[i := plan_bwd_filter_algo pl],
                       workspace_bwd_filter_sizes :=
                         (workspace_bwd_filter_sizes s)[i := plan_bwd_filter_size pl],
                       bwd_data_algo := (bwd_data_algo s)[i := plan_bwd_data_algo pl],
                       workspace_bwd_data_sizes :=
                         (workspace_bwd_data_sizes s)[i := plan_bwd_data_size pl]\<rparr>))
      else Inl OutOfBounds)"

text \<open>
  The reduction of lines 182--199:
  \<^verbatim>\<open>total = 0; for (i = 0; i < bottom.size(); i++) total = std::max(total, sizes[i]);\<close>
  for each of the three size arrays, then the maximum of the three totals and its
  product with the number of streams, all in \<^verbatim>\<open>size_t\<close>.
\<close>

primrec reduce_max :: "size_t list \<Rightarrow> nat \<Rightarrow> size_t" where
  "reduce_max sizes 0 = 0"
| "reduce_max sizes (Suc n) = max (reduce_max sizes n) (sizes ! n)"

definition max_workspace :: "nat \<Rightarrow> 'a CuDNNDepthwiseLayer \<Rightarrow> size_t" where
  "max_workspace nbottom s =
     (let total_workspace_fwd = reduce_max (workspace_fwd_sizes s) nbottom;
          total_workspace_bwd_data = reduce_max (workspace_bwd_data_sizes s) nbottom;
          total_workspace_bwd_filter = reduce_max (workspace_bwd_filter_sizes s) nbottom
      in max (max total_workspace_fwd total_workspace_bwd_data) total_workspace_bwd_filter)"

definition total_max_workspace :: "nat \<Rightarrow> 'a CuDNNDepthwiseLayer \<Rightarrow> size_t" where
  "total_max_workspace nbottom s = max_workspace nbottom s * of_nat CUDNN_STREAMS_DEPTHWISE"

text \<open>The body of the loop of the zero-memory path (lines 212--219).\<close>

definition force_zero_memory ::
  "nat \<Rightarrow> 'a CuDNNDepthwiseLayer \<Rightarrow> error + 'a CuDNNDepthwiseLayer"
where
  "force_zero_memory i s =
     (if i < length (workspace_fwd_sizes s) \<and> i < length (workspace_bwd_filter_sizes s) \<and>
         i < length (workspace_bwd_data_sizes s) \<and> i < length (fwd_algo s) \<and>
         i < length (bwd_filter_algo s) \<and> i < length (bwd_data_algo s)
      then Inr (s\<lparr>workspace_fwd_sizes := (workspace_fwd_sizes s)[i := 0],
                  workspace_bwd_filter_sizes := (workspace_bwd_filter_sizes s)[i := 0],
                  workspace_bwd_data_sizes := (workspace_bwd_data_sizes s)[i := 0],
                  fwd_algo := (fwd_algo s)[i := CUDNN_CONVOLUTION_FWD_ALGO_IMPLICIT_GEMM],
                  bwd_filter_algo := (bwd_filter_algo s)[i := CUDNN_CONVOLUTION_BWD_FILTER_ALGO_0],
                  bwd_data_algo := (bwd_data_algo s)[i := CUDNN_CONVOLUTION_BWD_DATA_ALGO_0]\<rparr>)
      else Inl OutOfBounds)"

text \<open>\<^verbatim>\<open>workspace[g] = p\<close>.\<close>

definition set_workspace ::
  "nat \<Rightarrow> ptr \<Rightarrow> 'a CuDNNDepthwiseLayer \<Rightarrow> error + 'a CuDNNDepthwiseLayer"
where
  "set_workspace g p s =
     (if g < length (workspace s) then Inr (s\<lparr>workspace := (workspace s)[g := p]\<rparr>)
      else Inl OutOfBounds)"

text \<open>
  Lines 202--234. The last loop stands after the \<^verbatim>\<open>if (err != cudaSuccess)\<close> block,
  not in an \<^verbatim>\<open>else\<close> branch, so it also runs when the allocation has failed.
  The address arithmetic \<^verbatim>\<open>(char*) workspaceData + g * max_workspace\<close> is arithmetic on
  64-bit words.
\<close>

definition Reshape_workspace ::
  "nat \<Rightarrow> backend \<Rightarrow> 'a CuDNNDepthwiseLayer \<Rightarrow> error + 'a CuDNNDepthwiseLayer"
where
  "Reshape_workspace nbottom be s =
     (let max_ws = max_workspace nbottom s;
          total = total_max_workspace nbottom s
      in if total > workspaceSizeInBytes s then
           bindE (cudaFree (workspaceData s) (s\<lparr>workspaceSizeInBytes := total\<rparr>)) (\<lambda>s.
           bindE (case cudaMalloc be (workspaceSizeInBytes s) of
                    Some p \<Rightarrow> Inr (s\<lparr>workspaceData := p, live := DeviceMem p # live s\<rparr>)
                  | None \<Rightarrow>
                      bindE (for_loop nbottom force_zero_memory s) (\<lambda>s.
                      bindE (for_loop CUDNN_STREAMS_DEPTHWISE (\<lambda>g. set_workspace g 0) s) (\<lambda>s.
                      Inr (s\<lparr>workspaceData := 0, workspaceSizeInBytes := 0\<rparr>)))) (\<lambda>s.
           for_loop CUDNN_STREAMS_DEPTHWISE
             (\<lambda>g s. set_workspace g (workspaceData s + of_nat g * max_ws) s) s))
         else Inr s)"

text \<open>
  \<^verbatim>\<open>Reshape\<close> (lines 111--240), applied to the layer as \<^verbatim>\<open>DepthwiseLayer::Reshape\<close>
  leaves it; \<open>nbottom\<close> is \<^verbatim>\<open>bottom.size()\<close>.
\<close>

definition Reshape ::
  "nat \<Rightarrow> backend \<Rightarrow> 'a CuDNNDepthwiseLayer \<Rightarrow> error + 'a CuDNNDepthwiseLayer"
where
  "Reshape nbottom be s =
     (if num_spatial_axes s \<noteq> 2
      then Inl (CheckFailed
             ''CuDNNConvolution input must have 2 spatial axes (e.g., height and width). Use 'engine: CAFFE' for general ND convolution.'')
      else if group_num s = 0 then Inl DivisionByZero
      else
        bindE (for_loop nbottom (Reshape_query be)
                 (s\<lparr>bottom_offset := bottom_dim s div group_num s,
                    top_offset := top_dim s div group_num s\<rparr>)) (\<lambda>s.
        bindE (Reshape_workspace nbottom be s) (\<lambda>s.
        if bias_term s \<and> \<not> bias_desc_ok be then Inl BackendError else Inr s)))"


section \<open>Setup and teardown\<close>

text \<open>
  Modelled from the spec: \<^verbatim>\<open>Blob::Reshape\<close> belongs to Caffe's Blob class, whose source
  is not part of the file modelled here. It gives the blob the count of the new
  shape (the spec's GroupedWeight and ValidityMask have the shape
  \<open>[outputChannels, channelsPerGroup, kernelH, kernelW]\<close>); a blob that has to grow
  gets fresh zeroed storage, one that does not keeps its leading entries.
\<close>

definition Blob_Reshape :: "nat \<Rightarrow> ('a::zero) Blob \<Rightarrow> 'a Blob" where
  "Blob_Reshape n b =
     (if n \<le> length (cpu_data b) \<and> n \<le> length (cpu_diff b)
      then \<lparr>cpu_data = take n (cpu_data b), cpu_diff = take n (cpu_diff b)\<rparr>
      else \<lparr>cpu_data = replicate n 0, cpu_diff = replicate n 0\<rparr>)"

text \<open>
  Lines 36--63 of \<^verbatim>\<open>LayerSetUp\<close>: the nine host arrays are allocated, the workspace
  is empty, every algorithm is the default one (value 0) with no workspace.
  Line 69 (\<^verbatim>\<open>workspace[g] = NULL\<close>) is included here.
\<close>

definition LayerSetUp_arrays :: "nat \<Rightarrow> 'a CuDNNDepthwiseLayer \<Rightarrow> 'a CuDNNDepthwiseLayer" where
  "LayerSetUp_arrays nbottom s =
     s\<lparr>fwd_algo := replicate nbottom 0,
       bwd_filter_algo := replicate nbottom 0,
       bwd_data_algo := replicate nbottom 0,
       workspace_fwd_sizes := replicate nbottom 0,
       workspace_bwd_filter_sizes := replicate nbottom 0,
       workspace_bwd_data_sizes := replicate nbottom 0,
       workspaceSizeInBytes := 0,
       workspaceData := 0,
       workspace := replicate CUDNN_STREAMS_DEPTHWISE 0,
       live := [HostArray ''stream_'', HostArray ''handle_'', HostArray ''fwd_algo_'',
                HostArray ''bwd_filter_algo_'', HostArray ''bwd_data_algo_'',
                HostArray ''workspace_fwd_sizes_'', HostArray ''workspace_bwd_filter_sizes_'',
                HostArray ''workspace_bwd_data_sizes_'', HostArray ''workspace''] @ live s\<rparr>"

text \<open>
  Lines 65--92: the streams and handles, the filter descriptor, three descriptors
  per bottom blob (appended to the vectors) and the bias descriptor.
\<close>

definition LayerSetUp_handles :: "nat \<Rightarrow> 'a CuDNNDepthwiseLayer \<Rightarrow> 'a CuDNNDepthwiseLayer" where
  "LayerSetUp_handles nbottom s =
     s\<lparr>stream := map CudaStream [0..<CUDNN_STREAMS_DEPTHWISE],
       handle := map CudnnHandle [0..<CUDNN_STREAMS_DEPTHWISE],
       filter_desc := FilterDesc,
       bottom_descs := bottom_descs s @ map BottomDesc [0..<nbottom],
       top_descs := top_descs s @ map TopDesc [0..<nbottom],
       conv_descs := conv_descs s @ map ConvDesc [0..<nbottom],
       bias_desc := (if bias_term s then BiasDesc else bias_desc s),
       live := map CudaStream [0..<CUDNN_STREAMS_DEPTHWISE] @
               map CudnnHandle [0..<CUDNN_STREAMS_DEPTHWISE] @ [FilterDesc] @
               map BottomDesc [0..<nbottom] @ map TopDesc [0..<nbottom] @
               map ConvDesc [0..<nbottom] @ (if bias_term s then [BiasDesc] else []) @ live s\<rparr>"

text \<open>
  \<^verbatim>\<open>LayerSetUp\<close> (lines 17--109), applied to the layer as
  \<^verbatim>\<open>DepthwiseLayer::LayerSetUp\<close> leaves it. \<open>nbottom\<close> is \<^verbatim>\<open>bottom.size()\<close>;
  \<open>backend_ok\<close> tells whether the CUDA and cuDNN create calls succeed (a failure
  is fatal through \<^verbatim>\<open>CUDA_CHECK\<close> and \<^verbatim>\<open>CUDNN_CHECK\<close>). The two \<^verbatim>\<open>CopyFrom\<close> calls
  copy the data and the gradient of \<^verbatim>\<open>blobs_[0]\<close> into \<^verbatim>\<open>caffe_weight_\<close>.
\<close>

definition LayerSetUp ::
  "nat \<Rightarrow> bool \<Rightarrow> ('a::zero_neq_one) CuDNNDepthwiseLayer \<Rightarrow> error + 'a CuDNNDepthwiseLayer"
where
  "LayerSetUp nbottom backend_ok s0 =
     (let s = s0\<lparr>group_num := param_group s0\<rparr>
      in if group_num s = 0 then Inl DivisionByZero
         else if channels s mod group_num s \<noteq> 0
         then Inl (CheckFailed ''CuDNNConvolution input channels must be divisible by groups.'')
         else if length (kernel_shape s) < 2 then Inl OutOfBounds
         else
           let kernel_h = kernel_shape s ! 0;
               kernel_w = kernel_shape s ! 1;
               s = s\<lparr>weight_offset :=
                       (num_output s div group_num s) * (channels s div group_num s) *
                       kernel_h * kernel_w\<rparr>;
               s = LayerSetUp_arrays nbottom s
           in if \<not> backend_ok then Inl BackendError
              else
                let s = LayerSetUp_handles nbottom s
                in if blobs s = [] then Inl OutOfBounds
                   else
                     let count = num_output s * (channels s div group_num s) * kernel_h * kernel_w;
                         s = s\<lparr>caffe_weight := blobs s ! 0,
                               blobs := (blobs s)[0 := Blob_Reshape count (blobs s ! 0)],
                               mask_blob := Blob_Reshape count (mask_blob s)\<rparr>
                     in bindE (CaffeToCuDNN s) (\<lambda>s. Inr (s\<lparr>handles_setup := True\<rparr>)))"

text \<open>
  The destructor (lines 242--272). It returns at once when the handles were never
  set up; otherwise it releases every descriptor, stream, handle, the device buffer
  and the nine host arrays. It writes no member: \<^verbatim>\<open>handles_setup_\<close> stays set and
  every pointer keeps its value.
\<close>

definition destroy_descs :: "nat \<Rightarrow> 'a CuDNNDepthwiseLayer \<Rightarrow> error + 'a CuDNNDepthwiseLayer" where
  "destroy_descs i s =
     (if i < length (bottom_descs s) \<and> i < length (top_descs s) \<and> i < length (conv_descs s)
      then bindE (release (bottom_descs s ! i) s) (\<lambda>s.
           bindE (release (top_descs s ! i) s) (\<lambda>s.
           release (conv_descs s ! i) s))
      else Inl OutOfBounds)"

definition destroy_stream :: "nat \<Rightarrow> 'a CuDNNDepthwiseLayer \<Rightarrow> error + 'a CuDNNDepthwiseLayer" where
  "destroy_stream g s =
     (if g < length (stream s) \<and> g < length (handle s)
      then bindE (release (stream s ! g) s) (\<lambda>s. release (handle s ! g) s)
      else Inl OutOfBounds)"

definition destructor :: "'a CuDNNDepthwiseLayer \<Rightarrow> error + 'a CuDNNDepthwiseLayer" where
  "destructor s =
     (if \<not> handles_setup s then Inr s
      else
        bindE (for_loop (length (bottom_descs s)) destroy_descs s) (\<lambda>s.
        bindE (if bias_term s then release (bias_desc s) s else Inr s) (\<lambda>s.
        bindE (release (filter_desc s) s) (\<lambda>s.
        bindE (for_loop CUDNN_STREAMS_DEPTHWISE destroy_stream s) (\<lambda>s.
        bindE (cudaFree (workspaceData s) s) (\<lambda>s.
        bindE (release (HostArray ''workspace'') s) (\<lambda>s.
        bindE (release (HostArray ''stream_'') s) (\<lambda>s.
        bindE (release (HostArray ''handle_'') s) (\<lambda>s.
        bindE (release (HostArray ''fwd_algo_'') s) (\<lambda>s.
        bindE (release (HostArray ''bwd_filter_algo_'') s) (\<lambda>s.
        bindE (release (HostArray ''bwd_data_algo_'') s) (\<lambda>s.
        bindE (release (HostArray ''workspace_fwd_sizes_'') s) (\<lambda>s.
        bindE (release (HostArray ''workspace_bwd_data_sizes_'') s) (\<lambda>s.
        release (HostArray ''workspace_bwd_filter_sizes_'') s))))))))))))))"

text \<open>
  The resources that the destructor releases, in the order of its calls; the device
  buffer is among them unless \<^verbatim>\<open>workspaceData\<close> is null.
\<close>

definition owned :: "'a CuDNNDepthwiseLayer \<Rightarrow> resource list" where
  "owned s =
     concat (map (\<lambda>i. [bottom_descs s ! i, top_descs s ! i, conv_descs s ! i])
               [0..<length (bottom_descs s)]) @
     (if bias_term s then [bias_desc s] else []) @
     [filter_desc s] @
     concat (map (\<lambda>g. [stream s ! g, handle s ! g]) [0..<CUDNN_STREAMS_DEPTHWISE]) @
     (if workspaceData s = 0 then [] else [DeviceMem (workspaceData s)]) @
     [HostArray ''workspace'', HostArray ''stream_'', HostArray ''handle_'',
      HostArray ''fwd_algo_'', HostArray ''bwd_filter_algo_'', HostArray ''bwd_data_algo_'',
      HostArray ''workspace_fwd_sizes_'', HostArray ''workspace_bwd_data_sizes_'',
      HostArray ''workspace_bwd_filter_sizes_'']"

section \<open>Concrete scenarios and specification-side definitions\<close>

text \<open>
  A layer before setup, as \<^verbatim>\<open>DepthwiseLayer::LayerSetUp\<close> leaves it in the scenario of
  four output channels over two input channels (multiplier 2) in one group with a
  1 x 2 kernel and a bias; used to run the operations on concrete data.
\<close>

definition example_base :: "real CuDNNDepthwiseLayer" where
  "example_base =
     \<lparr>param_group = 1, channels = 2, num_output = 4, kernel_dim = 2, multiplier = 2,
      num_spatial_axes = 2, kernel_shape = [1, 2], bias_term = True,
      bottom_dim = 12, top_dim = 24,
      blobs = [\<lparr>cpu_data = [1, 2, 3, 4, 5, 6, 7, 8], cpu_diff = [10, 20, 30, 40, 50, 60, 70, 80]\<rparr>,
               \<lparr>cpu_data = [9, 9, 9, 9], cpu_diff = [0, 0, 0, 0]\<rparr>],
      group_num = 0, weight_offset = 0, bottom_offset = 0, top_offset = 0,
      stream = [], handle = [], fwd_algo = [], bwd_filter_algo = [], bwd_data_algo = [],
      workspace_fwd_sizes = [], workspace_bwd_filter_sizes = [], workspace_bwd_data_sizes = [],
      workspaceSizeInBytes = 0, workspaceData = 0, workspace = [],
      filter_desc = FilterDesc, bottom_descs = [], top_descs = [], conv_descs = [],
      bias_desc = BiasDesc,
      caffe_weight = \<lparr>cpu_data = [], cpu_diff = []\<rparr>,
      mask_blob = \<lparr>cpu_data = [], cpu_diff = []\<rparr>,
      handles_setup = False, live = []\<rparr>"

text \<open>The same layer after \<^verbatim>\<open>LayerSetUp\<close> with one bottom blob.\<close>

definition example_layer :: "real CuDNNDepthwiseLayer" where
  "example_layer =
     \<lparr>param_group = 1, channels = 2, num_output = 4, kernel_dim = 2, multiplier = 2,
      num_spatial_axes = 2, kernel_shape = [1, 2], bias_term = True,
      bottom_dim = 12, top_dim = 24,
      blobs = [\<lparr>cpu_data = [1, 2, 0, 0, 3, 4, 0, 0, 0, 0, 5, 6, 0, 0, 7, 8],
                cpu_diff = [10, 20, 0, 0, 30, 40, 0, 0, 0, 0, 50, 60, 0, 0, 70, 80]\<rparr>,
               \<lparr>cpu_data = [9, 9, 9, 9], cpu_diff = [0, 0, 0, 0]\<rparr>],
      group_num = 1, weight_offset = 16, bottom_offset = 0, top_offset = 0,
      stream = [CudaStream 0, CudaStream 1, CudaStream 2],
      handle = [CudnnHandle 0, CudnnHandle 1, CudnnHandle 2],
      fwd_algo = [0], bwd_filter_algo = [0], bwd_data_algo = [0],
      workspace_fwd_sizes = [0], workspace_bwd_filter_sizes = [0], workspace_bwd_data_sizes = [0],
      workspaceSizeInBytes = 0, workspaceData = 0, workspace = [0, 0, 0],
      filter_desc = FilterDesc, bottom_descs = [BottomDesc 0], top_descs = [TopDesc 0],
      conv_descs = [ConvDesc 0], bias_desc = BiasDesc,
      caffe_weight = \<lparr>cpu_data = [1, 2, 3, 4, 5, 6, 7, 8],
                       cpu_diff = [10, 20, 30, 40, 50, 60, 70, 80]\<rparr>,
      mask_blob = \<lparr>cpu_data = [1, 1, 0, 0, 1, 1, 0, 0, 0, 0, 1, 1, 0, 0, 1, 1],
                    cpu_diff = [0, 0, 0, 0, 0, 0, 0, 0, 0, 0, 0, 0, 0, 0, 0, 0]\<rparr>,
      handles_setup = True,
      live = [CudaStream 0, CudaStream 1, CudaStream 2, CudnnHandle 0, CudnnHandle 1,
              CudnnHandle 2, FilterDesc, BottomDesc 0, TopDesc 0, ConvDesc 0, BiasDesc,
              HostArray ''stream_'', HostArray ''handle_'', HostArray ''fwd_algo_'',
              HostArray ''bwd_filter_algo_'', HostArray ''bwd_data_algo_'',
              HostArray ''workspace_fwd_sizes_'', HostArray ''workspace_bwd_filter_sizes_'',
              HostArray ''workspace_bwd_data_sizes_'', HostArray ''workspace'']\<rparr>"

text \<open>
  The layer after setup with a backend blob and a mask that hold other values, as
  before a conversion.
\<close>

definition example_stale :: "real CuDNNDepthwiseLayer" where
  "example_stale =
     example_layer\<lparr>blobs := [\<lparr>cpu_data = replicate 16 7, cpu_diff = replicate 16 7\<rparr>,
                              \<lparr>cpu_data = [9, 9, 9, 9], cpu_diff = [0, 0, 0, 0]\<rparr>],
                   mask_blob := \<lparr>cpu_data = replicate 16 5, cpu_diff = replicate 16 0\<rparr>\<rparr>"

text \<open>
  The spec's words for the size of one stream's region: the maximum, over the bound
  inputs, of the largest of that input's three scratch sizes (0 when there is no
  input).
\<close>

definition perStreamMax :: "nat \<Rightarrow> 'a CuDNNDepthwiseLayer \<Rightarrow> size_t" where
  "perStreamMax nbottom s =
     Max (insert 0 ((\<lambda>i. max (max (workspace_fwd_sizes s ! i) (workspace_bwd_data_sizes s ! i))
                              (workspace_bwd_filter_sizes s ! i)) ` {..<nbottom}))"

text \<open>
  Backends for concrete runs: \<open>failing_backend\<close> and \<open>working_backend\<close> plan 1024 bytes
  per stream, the first with a failing allocator; \<open>smaller_backend\<close> plans less,
  \<open>bigger_failing_backend\<close> plans more and its allocator fails. \<open>example_planned\<close> is
  the example layer with the sizes of the first plan.
\<close>

definition example_plans :: "nat \<Rightarrow> plan option" where
  "example_plans i =
     Some \<lparr>plan_fwd_algo = 1, plan_fwd_size = 1024, plan_bwd_filter_algo = 1,
           plan_bwd_filter_size = 512, plan_bwd_data_algo = 1, plan_bwd_data_size = 256\<rparr>"

definition failing_backend :: backend where
  "failing_backend = \<lparr>plans = example_plans, bias_desc_ok = True, cudaMalloc = (\<lambda>n. None)\<rparr>"

definition working_backend :: backend where
  "working_backend = \<lparr>plans = example_plans, bias_desc_ok = True, cudaMalloc = (\<lambda>n. Some 4096)\<rparr>"



definition example_planned :: "real CuDNNDepthwiseLayer" where
  "example_planned =
     example_layer\<lparr>workspace_fwd_sizes := [1024], workspace_bwd_filter_sizes := [512],
                   workspace_bwd_data_sizes := [256]\<rparr>"

text \<open>
  Releasing a list of resources in order, on the table of live resources alone:
  the first resource that is not live ends it with \<open>DoubleRelease\<close>.
\<close>

fun release_list :: "resource list \<Rightarrow> resource list \<Rightarrow> error + resource list" where
  "release_list [] l = Inr l"
| "release_list (r # rs) l =
     (if r \<in> set l then release_list rs (remove1 r l) else Inl (DoubleRelease r))"

definition set_live ::
  "'a CuDNNDepthwiseLayer \<Rightarrow> error + resource list \<Rightarrow> error + 'a CuDNNDepthwiseLayer"
where
  "set_live s m = bindE m (\<lambda>l. Inr (s\<lparr>live := l\<rparr>))"

section \<open>Properties of the layout translator\<close>

lemma bindE_Inr [simp]: "bindE (Inr x) f = f x"
  by (simp add: bindE_def)

lemma bindE_Inl [simp]: "bindE (Inl e) f = Inl e"
  by (simp add: bindE_def)

lemma length_scatter [simp]: "length (scatter dst val m buf) = length buf"
  by (induction m) simp_all

lemma scatter_other: "(\<And>k. k < m \<Longrightarrow> dst k \<noteq> p) \<Longrightarrow> scatter dst val m buf ! p = buf ! p"
  by (induction m) simp_all

lemma scatter_hit:
  "inj_on dst {..<m} \<Longrightarrow> k < m \<Longrightarrow> dst k < length buf \<Longrightarrow> scatter dst val m buf ! dst k = val k"
proof (induction m)
  case 0
  then show ?case by simp
next
  case (Suc m)
  show ?case
  proof (cases "k = m")
    case True
    with Suc.prems show ?thesis by simp
  next
    case False
    with Suc.prems have km: "k < m" by simp
    from Suc.prems(1) have inj: "inj_on dst {..<m}"
      by (rule inj_on_subset) auto
    have "dst m \<noteq> dst k"
    proof
      assume "dst m = dst k"
      with Suc.prems(1) km have "m = k"
        by (auto dest!: inj_onD [where x = m and y = k])
      with km show False by simp
    qed
    with Suc.IH [OF inj km Suc.prems(3)] show ?thesis by simp
  qed
qed

lemma length_scatter_rows [simp]: "length (scatter_rows dst val kd n buf) = length buf"
  by (induction n) simp_all

lemma scatter_rows_other:
  "(\<And>i k. i < n \<Longrightarrow> k < kd \<Longrightarrow> dst i k \<noteq> p) \<Longrightarrow> scatter_rows dst val kd n buf ! p = buf ! p"
  by (induction n) (simp_all add: scatter_other)

lemma scatter_rows_hit:
  "(\<forall>i k i' k'. i < n \<and> i' < n \<and> k < kd \<and> k' < kd \<and> dst i k = dst i' k' \<longrightarrow> i = i' \<and> k = k') \<Longrightarrow>
   i < n \<Longrightarrow> k < kd \<Longrightarrow> dst i k < length buf \<Longrightarrow>
   scatter_rows dst val kd n buf ! dst i k = val i k"
proof (induction n)
  case 0
  then show ?case by simp
next
  case (Suc n)
  have inj: "i1 = i2 \<and> k1 = k2"
    if "i1 < Suc n" "i2 < Suc n" "k1 < kd" "k2 < kd" "dst i1 k1 = dst i2 k2" for i1 i2 k1 k2
    using Suc.prems(1) that by blast
  have len: "dst i k < length (scatter_rows dst val kd n buf)"
    using Suc.prems(4) by simp
  show ?case
  proof (cases "i = n")
    case True
    have "inj_on (dst n) {..<kd}"
    proof (rule inj_onI)
      fix x y assume "x \<in> {..<kd}" "y \<in> {..<kd}" "dst n x = dst n y"
      then show "x = y" using inj [of n n x y] by simp
    qed
    from scatter_hit [OF this Suc.prems(3), of "scatter_rows dst val kd n buf" "val n"] len True
    show ?thesis by simp
  next
    case False
    with Suc.prems(2) have i: "i < n" by simp
    have "scatter (dst n) (val n) kd (scatter_rows dst val kd n buf) ! dst i k
        = scatter_rows dst val kd n buf ! dst i k"
    proof (rule scatter_other)
      fix k' assume k': "k' < kd"
      show "dst n k' \<noteq> dst i k"
      proof
        assume "dst n k' = dst i k"
        then have "n = i" using inj [of n i k' k] i k' Suc.prems(3) by simp
        with i show False by simp
      qed
    qed
    also have "\<dots> = val i k"
    proof (rule Suc.IH [OF _ i Suc.prems(3) Suc.prems(4)])
      show "\<forall>i k i' k'. i < n \<and> i' < n \<and> k < kd \<and> k' < kd \<and> dst i k = dst i' k' \<longrightarrow> i = i' \<and> k = k'"
      proof (intro allI impI)
        fix i1 k1 i2 k2
        assume "i1 < n \<and> i2 < n \<and> k1 < kd \<and> k2 < kd \<and> dst i1 k1 = dst i2 k2"
        then show "i1 = i2 \<and> k1 = k2" using inj [of i1 i2 k1 k2] by simp
      qed
    qed
    finally show ?thesis by simp
  qed
qed

lemma idx_cudnn_inj:
  assumes "0 < cpg" "k < kd" "k' < kd"
    and eq: "idx_cudnn mult cpg kd i k = idx_cudnn mult cpg kd i' k'"
  shows "i = i' \<and> k = k'"
proof -
  let ?a = "i * cpg + slot_j mult cpg i" and ?a' = "i' * cpg + slot_j mult cpg i'"
  from eq have e: "?a * kd + k = ?a' * kd + k'"
    by (simp add: idx_cudnn_def)
  from e have "(?a * kd + k) mod kd = (?a' * kd + k') mod kd" by simp
  with assms(2,3) have k: "k = k'" by simp
  from e have "(?a * kd + k) div kd = (?a' * kd + k') div kd" by simp
  with assms(2,3) have a: "?a = ?a'" by simp
  have j: "slot_j mult cpg i < cpg" "slot_j mult cpg i' < cpg"
    using assms(1) by (simp_all add: slot_j_def)
  from a have "?a div cpg = ?a' div cpg" by simp
  with j assms(1) have "i = i'" by simp
  with k show ?thesis by simp
qed

lemma idx_cudnn_less:
  assumes "0 < cpg" "i < n" "k < kd"
  shows "idx_cudnn mult cpg kd i k < n * cpg * kd"
proof -
  have "slot_j mult cpg i < cpg"
    using assms(1) by (simp add: slot_j_def)
  then have "i * cpg + slot_j mult cpg i < Suc i * cpg" by simp
  also have "\<dots> \<le> n * cpg"
    using assms(2) by (intro mult_le_mono1) simp
  finally have "i * cpg + slot_j mult cpg i + 1 \<le> n * cpg" by simp
  then have "(i * cpg + slot_j mult cpg i + 1) * kd \<le> n * cpg * kd"
    by (rule mult_le_mono1)
  with assms(3) show ?thesis
    by (simp add: idx_cudnn_def)
qed

lemma idx_caffe_inj:
  "k < kd \<Longrightarrow> k' < kd \<Longrightarrow> idx_caffe kd i k = idx_caffe kd i' k' \<Longrightarrow> i = i' \<and> k = k'"
proof -
  assume a: "k < kd" "k' < kd" "idx_caffe kd i k = idx_caffe kd i' k'"
  then have e: "i * kd + k = i' * kd + k'" by (simp add: idx_caffe_def)
  from e have "(i * kd + k) mod kd = (i' * kd + k') mod kd" by simp
  with a have k: "k = k'" by simp
  from e have "(i * kd + k) div kd = (i' * kd + k') div kd" by simp
  with a have "i = i'" by simp
  with k show ?thesis by simp
qed

lemma idx_caffe_less: "i < n \<Longrightarrow> k < kd \<Longrightarrow> idx_caffe kd i k < n * kd"
proof -
  assume a: "i < n" "k < kd"
  have "i * kd + k < Suc i * kd" using a by simp
  also have "\<dots> \<le> n * kd" using a by (intro mult_le_mono1) simp
  finally show ?thesis by (simp add: idx_caffe_def)
qed

lemma CaffeToCuDNN_inner:
  assumes "0 < mult" "0 < cpg"
    and "\<forall>k<m. idx_caffe kd i k < length ca \<and> idx_caffe kd i k < length cf \<and>
           idx_cudnn mult cpg kd i k < length d \<and> idx_cudnn mult cpg kd i k < length f \<and>
           idx_cudnn mult cpg kd i k < length mk"
  shows "for_loop m (CaffeToCuDNN_body mult cpg kd ca cf i) (d, f, mk) =
         Inr (scatter (idx_cudnn mult cpg kd i) (\<lambda>k. ca ! idx_caffe kd i k) m d,
              scatter (idx_cudnn mult cpg kd i) (\<lambda>k. cf ! idx_caffe kd i k) m f,
              scatter (idx_cudnn mult cpg kd i) (\<lambda>k. 1) m mk)"
  using assms(3)
proof (induction m)
  case 0
  show ?case by simp
next
  case (Suc m)
  from Suc.prems have "\<forall>k<m. idx_caffe kd i k < length ca \<and> idx_caffe kd i k < length cf \<and>
           idx_cudnn mult cpg kd i k < length d \<and> idx_cudnn mult cpg kd i k < length f \<and>
           idx_cudnn mult cpg kd i k < length mk"
    by simp
  from Suc.IH [OF this] Suc.prems [rule_format, of m] assms(1,2)
  show ?case
    by (simp add: CaffeToCuDNN_body_def Let_def)
qed

lemma CaffeToCuDNN_outer:
  assumes "0 < mult" "0 < cpg"
    and "\<forall>i<n. \<forall>k<kd. idx_caffe kd i k < length ca \<and> idx_caffe kd i k < length cf \<and>
           idx_cudnn mult cpg kd i k < length d \<and> idx_cudnn mult cpg kd i k < length f \<and>
           idx_cudnn mult cpg kd i k < length mk"
  shows "for_loop n (\<lambda>i. for_loop kd (CaffeToCuDNN_body mult cpg kd ca cf i)) (d, f, mk) =
         Inr (scatter_rows (idx_cudnn mult cpg kd) (\<lambda>i k. ca ! idx_caffe kd i k) kd n d,
              scatter_rows (idx_cudnn mult cpg kd) (\<lambda>i k. cf ! idx_caffe kd i k) kd n f,
              scatter_rows (idx_cudnn mult cpg kd) (\<lambda>i k. 1) kd n mk)"
  using assms(3)
proof (induction n)
  case 0
  show ?case by simp
next
  case (Suc n)
  from Suc.prems have prev: "\<forall>i<n. \<forall>k<kd. idx_caffe kd i k < length ca \<and> idx_caffe kd i k < length cf \<and>
           idx_cudnn mult cpg kd i k < length d \<and> idx_cudnn mult cpg kd i k < length f \<and>
           idx_cudnn mult cpg kd i k < length mk"
    by simp
  from Suc.prems have row: "\<forall>k<kd. idx_caffe kd n k < length ca \<and> idx_caffe kd n k < length cf \<and>
           idx_cudnn mult cpg kd n k < length (scatter_rows (idx_cudnn mult cpg kd) (\<lambda>i k. ca ! idx_caffe kd i k) kd n d) \<and>
           idx_cudnn mult cpg kd n k < length (scatter_rows (idx_cudnn mult cpg kd) (\<lambda>i k. cf ! idx_caffe kd i k) kd n f) \<and>
           idx_cudnn mult cpg kd n k < length (scatter_rows (idx_cudnn mult cpg kd) (\<lambda>i k. 1) kd n mk)"
    by simp
  show ?case
    by (simp add: Suc.IH [OF prev] CaffeToCuDNN_inner [OF assms(1,2) row])
qed

lemma CuDNNToCaffe_inner:
  assumes "0 < mult" "0 < cpg"
    and "\<forall>k<m. idx_cudnn mult cpg kd i k < length d \<and> idx_cudnn mult cpg kd i k < length f \<and>
           idx_caffe kd i k < length ca \<and> idx_caffe kd i k < length cf"
  shows "for_loop m (CuDNNToCaffe_body mult cpg kd d f i) (ca, cf) =
         Inr (scatter (idx_caffe kd i) (\<lambda>k. d ! idx_cudnn mult cpg kd i k) m ca,
              scatter (idx_caffe kd i) (\<lambda>k. f ! idx_cudnn mult cpg kd i k) m cf)"
  using assms(3)
proof (induction m)
  case 0
  show ?case by simp
next
  case (Suc m)
  from Suc.prems have "\<forall>k<m. idx_cudnn mult cpg kd i k < length d \<and> idx_cudnn mult cpg kd i k < length f \<and>
           idx_caffe kd i k < length ca \<and> idx_caffe kd i k < length cf"
    by simp
  from Suc.IH [OF this] Suc.prems [rule_format, of m] assms(1,2)
  show ?case
    by (simp add: CuDNNToCaffe_body_def Let_def)
qed

lemma CuDNNToCaffe_outer:
  assumes "0 < mult" "0 < cpg"
    and "\<forall>i<n. \<forall>k<kd. idx_cudnn mult cpg kd i k < length d \<and> idx_cudnn mult cpg kd i k < length f \<and>
           idx_caffe kd i k < length ca \<and> idx_caffe kd i k < length cf"
  shows "for_loop n (\<lambda>i. for_loop kd (CuDNNToCaffe_body mult cpg kd d f i)) (ca, cf) =
         Inr (scatter_rows (idx_caffe kd) (\<lambda>i k. d ! idx_cudnn mult cpg kd i k) kd n ca,
              scatter_rows (idx_caffe kd) (\<lambda>i k. f ! idx_cudnn mult cpg kd i k) kd n cf)"
  using assms(3)
proof (induction n)
  case 0
  show ?case by simp
next
  case (Suc n)
  from Suc.prems have prev: "\<forall>i<n. \<forall>k<kd. idx_cudnn mult cpg kd i k < length d \<and> idx_cudnn mult cpg kd i k < length f \<and>
           idx_caffe kd i k < length ca \<and> idx_caffe kd i k < length cf"
    by simp
  from Suc.prems have row: "\<forall>k<kd. idx_cudnn mult cpg kd n k < length d \<and> idx_cudnn mult cpg kd n k < length f \<and>
           idx_caffe kd n k < length (scatter_rows (idx_caffe kd) (\<lambda>i k. d ! idx_cudnn mult cpg kd i k) kd n ca) \<and>
           idx_caffe kd n k < length (scatter_rows (idx_caffe kd) (\<lambda>i k. f ! idx_cudnn mult cpg kd i k) kd n cf)"
    by simp
  show ?case
    by (simp add: Suc.IH [OF prev] CuDNNToCaffe_inner [OF assms(1,2) row])
qed

lemma scatter_id:
  "(\<forall>k<m. val k = buf ! dst k) \<Longrightarrow> scatter dst val m buf = buf"
  by (induction m) simp_all

lemma scatter_rows_id:
  "(\<forall>i<n. \<forall>k<kd. val i k = buf ! dst i k) \<Longrightarrow> scatter_rows dst val kd n buf = buf"
  by (induction n) (simp_all add: scatter_id)

lemma idx_cudnn_inj_all:
  "0 < cpg \<Longrightarrow>
   \<forall>i k i' k'. i < n \<and> i' < n \<and> k < kd \<and> k' < kd \<and>
      idx_cudnn mult cpg kd i k = idx_cudnn mult cpg kd i' k' \<longrightarrow> i = i' \<and> k = k'"
  using idx_cudnn_inj by blast

lemma backend_hit:
  assumes "0 < cpg" "i < n" "k < kd"
  shows "scatter_rows (idx_cudnn mult cpg kd) val kd n (replicate (n * cpg * kd) z)
           ! idx_cudnn mult cpg kd i k = val i k"
proof (rule scatter_rows_hit [OF idx_cudnn_inj_all [OF assms(1)] assms(2,3)])
  show "idx_cudnn mult cpg kd i k < length (replicate (n * cpg * kd) z)"
    using idx_cudnn_less [OF assms] by simp
qed

lemma backend_other:
  assumes "p < n * cpg * kd" "\<forall>i<n. \<forall>k<kd. p \<noteq> idx_cudnn mult cpg kd i k"
  shows "scatter_rows (idx_cudnn mult cpg kd) val kd n (replicate (n * cpg * kd) z) ! p = z"
proof -
  have "scatter_rows (idx_cudnn mult cpg kd) val kd n (replicate (n * cpg * kd) z) ! p
      = replicate (n * cpg * kd) z ! p"
    using assms(2) by (intro scatter_rows_other) auto
  with assms(1) show ?thesis by simp
qed

lemma CaffeToCuDNN_result:
  assumes v: "valid_config s" and w: "weights_bound s"
  shows "CaffeToCuDNN s =
     Inr (s\<lparr>blobs := (blobs s)[0 :=
               \<lparr>cpu_data = scatter_rows (idx_cudnn (multiplier s) (channels s div group_num s) (kernel_dim s))
                    (\<lambda>i k. cpu_data (caffe_weight s) ! idx_caffe (kernel_dim s) i k) (kernel_dim s) (num_output s)
                    (replicate (num_output s * (channels s div group_num s) * kernel_dim s) 0),
                cpu_diff = scatter_rows (idx_cudnn (multiplier s) (channels s div group_num s) (kernel_dim s))
                    (\<lambda>i k. cpu_diff (caffe_weight s) ! idx_caffe (kernel_dim s) i k) (kernel_dim s) (num_output s)
                    (replicate (num_output s * (channels s div group_num s) * kernel_dim s) 0)\<rparr>],
            mask_blob := (mask_blob s)\<lparr>cpu_data :=
                scatter_rows (idx_cudnn (multiplier s) (channels s div group_num s) (kernel_dim s))
                    (\<lambda>i k. 1) (kernel_dim s) (num_output s)
                    (replicate (num_output s * (channels s div group_num s) * kernel_dim s) 0)\<rparr>\<rparr>)"
proof -
  let ?cpg = "channels s div group_num s"
  let ?N = "num_output s * ?cpg * kernel_dim s"
  from v have m: "0 < multiplier s" and c: "0 < ?cpg"
    by (simp_all add: valid_config_def)
  from c have g: "group_num s \<noteq> 0"
    by (cases "group_num s = 0") simp_all
  from w have b: "blobs s \<noteq> []"
    and la: "length (cpu_data (caffe_weight s)) = num_output s * kernel_dim s"
            "length (cpu_diff (caffe_weight s)) = num_output s * kernel_dim s"
    and ld: "length (cpu_data (blobs s ! 0)) = ?N" "length (cpu_diff (blobs s ! 0)) = ?N"
            "length (cpu_data (mask_blob s)) = ?N"
    by (simp_all add: weights_bound_def)
  have z: "caffe_set ?N (0::'a) (cpu_data (blobs s ! 0)) = Inr (replicate ?N 0)"
      "caffe_set ?N (0::'a) (cpu_diff (blobs s ! 0)) = Inr (replicate ?N 0)"
      "caffe_set ?N (0::'a) (cpu_data (mask_blob s)) = Inr (replicate ?N 0)"
    using ld by (simp_all add: caffe_set_def)
  have bounds: "\<forall>i<num_output s. \<forall>k<kernel_dim s.
      idx_caffe (kernel_dim s) i k < length (cpu_data (caffe_weight s)) \<and>
      idx_caffe (kernel_dim s) i k < length (cpu_diff (caffe_weight s)) \<and>
      idx_cudnn (multiplier s) ?cpg (kernel_dim s) i k < length (replicate ?N (0::'a)) \<and>
      idx_cudnn (multiplier s) ?cpg (kernel_dim s) i k < length (replicate ?N (0::'a)) \<and>
      idx_cudnn (multiplier s) ?cpg (kernel_dim s) i k < length (replicate ?N (0::'a))"
    using la idx_caffe_less idx_cudnn_less [OF c] by simp
  show ?thesis
    using b g
    by (simp add: CaffeToCuDNN_def Let_def z CaffeToCuDNN_outer [OF m c bounds])
qed

lemma CuDNNToCaffe_result:
  assumes v: "valid_config s" and w: "weights_bound s"
  shows "CuDNNToCaffe s =
     Inr (s\<lparr>caffe_weight :=
            \<lparr>cpu_data = scatter_rows (idx_caffe (kernel_dim s))
                 (\<lambda>i k. cpu_data (blobs s ! 0) ! idx_cudnn (multiplier s) (channels s div group_num s) (kernel_dim s) i k)
                 (kernel_dim s) (num_output s) (cpu_data (caffe_weight s)),
             cpu_diff = scatter_rows (idx_caffe (kernel_dim s))
                 (\<lambda>i k. cpu_diff (blobs s ! 0) ! idx_cudnn (multiplier s) (channels s div group_num s) (kernel_dim s) i k)
                 (kernel_dim s) (num_output s) (cpu_diff (caffe_weight s))\<rparr>\<rparr>)"
proof -
  let ?cpg = "channels s div group_num s"
  let ?N = "num_output s * ?cpg * kernel_dim s"
  from v have m: "0 < multiplier s" and c: "0 < ?cpg"
    by (simp_all add: valid_config_def)
  from c have g: "group_num s \<noteq> 0"
    by (cases "group_num s = 0") simp_all
  from w have b: "blobs s \<noteq> []"
    and la: "length (cpu_data (caffe_weight s)) = num_output s * kernel_dim s"
            "length (cpu_diff (caffe_weight s)) = num_output s * kernel_dim s"
    and ld: "length (cpu_data (blobs s ! 0)) = ?N" "length (cpu_diff (blobs s ! 0)) = ?N"
    by (simp_all add: weights_bound_def)
  have bounds: "\<forall>i<num_output s. \<forall>k<kernel_dim s.
      idx_cudnn (multiplier s) ?cpg (kernel_dim s) i k < length (cpu_data (blobs s ! 0)) \<and>
      idx_cudnn (multiplier s) ?cpg (kernel_dim s) i k < length (cpu_diff (blobs s ! 0)) \<and>
      idx_caffe (kernel_dim s) i k < length (cpu_data (caffe_weight s)) \<and>
      idx_caffe (kernel_dim s) i k < length (cpu_diff (caffe_weight s))"
    using la ld idx_caffe_less idx_cudnn_less [OF c] by simp
  show ?thesis
    using b g
    by (simp add: CuDNNToCaffe_def Let_def CuDNNToCaffe_outer [OF m c bounds])
qed

lemma LayerSetUp_example: "LayerSetUp 1 True example_base = Inr example_layer"
  by code_simp

lemma example_valid: "valid_config example_layer"
  by (simp add: valid_config_def example_layer_def)

lemma example_bound: "weights_bound example_layer"
  by (simp add: weights_bound_def example_layer_def)

text \<open>
  Claim C10. For a positive number of channels per group, a positive multiplier and a
  positive kernel size, the map from an output channel \<open>i\<close> and a kernel position
  \<open>k < kd\<close> to the backend index \<open>(i * cpg + i div mult mod cpg) * kd + k\<close> is
  injective: no two compact entries share a backend entry.
\<close>

theorem backend_index_injective:
  assumes "1 \<le> cpg" "1 \<le> mult" "1 \<le> kd"
  shows "inj_on (\<lambda>(i, k). idx_cudnn mult cpg kd i k) ({..<n} \<times> {..<kd})"
proof (rule inj_onI)
  fix x y
  assume x: "x \<in> {..<n} \<times> {..<kd}" and y: "y \<in> {..<n} \<times> {..<kd}"
    and eq: "(case x of (i, k) \<Rightarrow> idx_cudnn mult cpg kd i k) = (case y of (i, k) \<Rightarrow> idx_cudnn mult cpg kd i k)"
  obtain i k where xe: "x = (i, k)" by (cases x)
  obtain i' k' where ye: "y = (i', k')" by (cases y)
  from x y xe ye have k: "k < kd" "k' < kd" by simp_all
  from assms(1) have c: "0 < cpg" by simp
  from eq xe ye have "idx_cudnn mult cpg kd i k = idx_cudnn mult cpg kd i' k'" by simp
  with c k have "i = i' \<and> k = k'" by (rule idx_cudnn_inj)
  with xe ye show "x = y" by simp
qed

theorem backend_index_injective_witness:
  "inj_on (\<lambda>(i, k). idx_cudnn 2 4 9 i k) ({..<8} \<times> {..<9})"
  using backend_index_injective [of 4 2 9 8] by simp

lemma stale_valid: "valid_config example_stale"
  by (simp add: valid_config_def example_stale_def example_layer_def)

lemma stale_bound: "weights_bound example_stale"
  by (simp add: weights_bound_def example_stale_def example_layer_def)

lemma gather_all:
  assumes c: "0 < cpg" and k: "0 < kd"
    and la: "length ca = n * kd" and ld: "length d = n * kd"
  shows "scatter_rows (idx_caffe kd)
           (\<lambda>i k. scatter_rows (idx_cudnn mult cpg kd) (\<lambda>i k. ca ! idx_caffe kd i k) kd n
                      (replicate (n * cpg * kd) z) ! idx_cudnn mult cpg kd i k)
           kd n d = ca"
proof (rule nth_equalityI)
  show "length (scatter_rows (idx_caffe kd)
           (\<lambda>i k. scatter_rows (idx_cudnn mult cpg kd) (\<lambda>i k. ca ! idx_caffe kd i k) kd n
                      (replicate (n * cpg * kd) z) ! idx_cudnn mult cpg kd i k)
           kd n d) = length ca"
    by (simp add: la ld)
next
  fix p
  assume "p < length (scatter_rows (idx_caffe kd)
           (\<lambda>i k. scatter_rows (idx_cudnn mult cpg kd) (\<lambda>i k. ca ! idx_caffe kd i k) kd n
                      (replicate (n * cpg * kd) z) ! idx_cudnn mult cpg kd i k)
           kd n d)"
  then have p: "p < n * kd" by (simp add: ld)
  let ?i = "p div kd" and ?k = "p mod kd"
  have i: "?i < n" using p k by (simp add: less_mult_imp_div_less)
  have kk: "?k < kd" using k by simp
  have e: "idx_caffe kd ?i ?k = p" by (simp add: idx_caffe_def)
  have inj: "\<forall>i k i' k'. i < n \<and> i' < n \<and> k < kd \<and> k' < kd \<and>
      idx_caffe kd i k = idx_caffe kd i' k' \<longrightarrow> i = i' \<and> k = k'"
    using idx_caffe_inj by blast
  have len: "idx_caffe kd ?i ?k < length d" using p by (simp add: e ld)
  have "scatter_rows (idx_caffe kd)
           (\<lambda>i k. scatter_rows (idx_cudnn mult cpg kd) (\<lambda>i k. ca ! idx_caffe kd i k) kd n
                      (replicate (n * cpg * kd) z) ! idx_cudnn mult cpg kd i k)
           kd n d ! idx_caffe kd ?i ?k
        = scatter_rows (idx_cudnn mult cpg kd) (\<lambda>i k. ca ! idx_caffe kd i k) kd n
            (replicate (n * cpg * kd) z) ! idx_cudnn mult cpg kd ?i ?k"
    by (rule scatter_rows_hit [OF inj i kk len])
  also have "\<dots> = ca ! idx_caffe kd ?i ?k"
    by (rule backend_hit [OF c i kk])
  finally show "scatter_rows (idx_caffe kd)
           (\<lambda>i k. scatter_rows (idx_cudnn mult cpg kd) (\<lambda>i k. ca ! idx_caffe kd i k) kd n
                      (replicate (n * cpg * kd) z) ! idx_cudnn mult cpg kd i k)
           kd n d ! p = ca ! p"
    by (simp only: e)
qed

text \<open>
  Claim C1. With a valid configuration and the buffers shaped as \<^verbatim>\<open>LayerSetUp\<close> shapes
  them, \<^verbatim>\<open>CaffeToCuDNN\<close> followed by \<^verbatim>\<open>CuDNNToCaffe\<close> both return and leave the compact
  data and gradient buffers exactly as they were. The compact blob is recovered from
  the backend blob alone: whatever data and gradient of the compact shape the compact
  blob holds when \<^verbatim>\<open>CuDNNToCaffe\<close> starts, it holds the original ones when it returns.
\<close>

theorem layout_round_trip:
  assumes "valid_config s" "weights_bound s"
  shows "\<exists>s1. CaffeToCuDNN s = Inr s1 \<and>
           (\<exists>s2. CuDNNToCaffe s1 = Inr s2 \<and>
              cpu_data (caffe_weight s2) = cpu_data (caffe_weight s) \<and>
              cpu_diff (caffe_weight s2) = cpu_diff (caffe_weight s)) \<and>
           (\<forall>d f. length d = num_output s * kernel_dim s \<and>
                  length f = num_output s * kernel_dim s \<longrightarrow>
              (\<exists>s2. CuDNNToCaffe (s1\<lparr>caffe_weight := \<lparr>cpu_data = d, cpu_diff = f\<rparr>\<rparr>) = Inr s2 \<and>
                 cpu_data (caffe_weight s2) = cpu_data (caffe_weight s) \<and>
                 cpu_diff (caffe_weight s2) = cpu_diff (caffe_weight s)))"
proof -
  let ?m = "multiplier s" and ?cpg = "channels s div group_num s" and ?kd = "kernel_dim s"
    and ?n = "num_output s"
  let ?N = "?n * ?cpg * ?kd"
  let ?D = "scatter_rows (idx_cudnn ?m ?cpg ?kd)
              (\<lambda>i k. cpu_data (caffe_weight s) ! idx_caffe ?kd i k) ?kd ?n (replicate ?N 0)"
  let ?F = "scatter_rows (idx_cudnn ?m ?cpg ?kd)
              (\<lambda>i k. cpu_diff (caffe_weight s) ! idx_caffe ?kd i k) ?kd ?n (replicate ?N 0)"
  let ?M = "scatter_rows (idx_cudnn ?m ?cpg ?kd) (\<lambda>i k. 1::'a) ?kd ?n (replicate ?N 0)"
  define s1 where "s1 = s\<lparr>blobs := (blobs s)[0 := \<lparr>cpu_data = ?D, cpu_diff = ?F\<rparr>],
                          mask_blob := (mask_blob s)\<lparr>cpu_data := ?M\<rparr>\<rparr>"
  from assms(1) have c: "0 < ?cpg" and k: "0 < ?kd" by (simp_all add: valid_config_def)
  from assms(2) have b: "blobs s \<noteq> []"
    and la: "length (cpu_data (caffe_weight s)) = ?n * ?kd"
            "length (cpu_diff (caffe_weight s)) = ?n * ?kd"
    by (simp_all add: weights_bound_def)
  have r1: "CaffeToCuDNN s = Inr s1"
    unfolding s1_def by (rule CaffeToCuDNN_result [OF assms])
  have clob: "\<exists>s2. CuDNNToCaffe (s1\<lparr>caffe_weight := \<lparr>cpu_data = d, cpu_diff = f\<rparr>\<rparr>) = Inr s2 \<and>
                 cpu_data (caffe_weight s2) = cpu_data (caffe_weight s) \<and>
                 cpu_diff (caffe_weight s2) = cpu_diff (caffe_weight s)"
    if ld: "length d = ?n * ?kd" and lf: "length f = ?n * ?kd" for d f
  proof -
    let ?t = "s1\<lparr>caffe_weight := \<lparr>cpu_data = d, cpu_diff = f\<rparr>\<rparr>"
    have v: "valid_config ?t"
      using assms(1) by (simp add: valid_config_def s1_def)
    have w: "weights_bound ?t"
      using assms(2) b ld lf by (simp add: weights_bound_def s1_def)
    have fields: "multiplier ?t = ?m" "channels ?t div group_num ?t = ?cpg" "kernel_dim ?t = ?kd"
      "num_output ?t = ?n" "cpu_data (caffe_weight ?t) = d" "cpu_diff (caffe_weight ?t) = f"
      "cpu_data (blobs ?t ! 0) = ?D" "cpu_diff (blobs ?t ! 0) = ?F"
      using b by (simp_all add: s1_def)
    have gd: "scatter_rows (idx_caffe ?kd) (\<lambda>i k. ?D ! idx_cudnn ?m ?cpg ?kd i k) ?kd ?n d
                = cpu_data (caffe_weight s)"
      by (rule gather_all [OF c k la(1) ld])
    have gf: "scatter_rows (idx_caffe ?kd) (\<lambda>i k. ?F ! idx_cudnn ?m ?cpg ?kd i k) ?kd ?n f
                = cpu_diff (caffe_weight s)"
      by (rule gather_all [OF c k la(2) lf])
    have "CuDNNToCaffe ?t = Inr (?t\<lparr>caffe_weight :=
              \<lparr>cpu_data = cpu_data (caffe_weight s), cpu_diff = cpu_diff (caffe_weight s)\<rparr>\<rparr>)"
      using CuDNNToCaffe_result [OF v w] by (simp only: fields gd gf)
    then show ?thesis by simp
  qed
  have same: "s1\<lparr>caffe_weight := \<lparr>cpu_data = cpu_data (caffe_weight s),
                                    cpu_diff = cpu_diff (caffe_weight s)\<rparr>\<rparr> = s1"
    by (simp add: s1_def)
  from clob [OF la] have direct: "\<exists>s2. CuDNNToCaffe s1 = Inr s2 \<and>
              cpu_data (caffe_weight s2) = cpu_data (caffe_weight s) \<and>
              cpu_diff (caffe_weight s2) = cpu_diff (caffe_weight s)"
    by (simp only: same)
  show ?thesis
  proof (rule exI [where x = s1], intro conjI allI impI)
    show "CaffeToCuDNN s = Inr s1" by (rule r1)
    show "\<exists>s2. CuDNNToCaffe s1 = Inr s2 \<and>
              cpu_data (caffe_weight s2) = cpu_data (caffe_weight s) \<and>
              cpu_diff (caffe_weight s2) = cpu_diff (caffe_weight s)" by (rule direct)
  next
    fix d f :: "'a list"
    assume "length d = ?n * ?kd \<and> length f = ?n * ?kd"
    then show "\<exists>s2. CuDNNToCaffe (s1\<lparr>caffe_weight := \<lparr>cpu_data = d, cpu_diff = f\<rparr>\<rparr>) = Inr s2 \<and>
                 cpu_data (caffe_weight s2) = cpu_data (caffe_weight s) \<and>
                 cpu_diff (caffe_weight s2) = cpu_diff (caffe_weight s)"
      using clob by blast
  qed
qed

theorem layout_round_trip_witness:
  "valid_config example_stale \<and> weights_bound example_stale \<and>
   (\<exists>s1. CaffeToCuDNN example_stale = Inr s1 \<and>
      (\<exists>s2. CuDNNToCaffe (s1\<lparr>caffe_weight :=
                 \<lparr>cpu_data = replicate 8 0, cpu_diff = replicate 8 0\<rparr>\<rparr>) = Inr s2 \<and>
         cpu_data (caffe_weight s2) = [1, 2, 3, 4, 5, 6, 7, 8] \<and>
         cpu_diff (caffe_weight s2) = [10, 20, 30, 40, 50, 60, 70, 80]))"
proof -
  have cw: "cpu_data (caffe_weight example_stale) = [1, 2, 3, 4, 5, 6, 7, 8]"
    "cpu_diff (caffe_weight example_stale) = [10, 20, 30, 40, 50, 60, 70, 80]"
    "num_output example_stale * kernel_dim example_stale = 8"
    by (simp_all add: example_stale_def example_layer_def)
  from layout_round_trip [OF stale_valid stale_bound]
  obtain s1 where r: "CaffeToCuDNN example_stale = Inr s1"
    and a: "\<forall>d f. length d = 8 \<and> length f = 8 \<longrightarrow>
              (\<exists>s2. CuDNNToCaffe (s1\<lparr>caffe_weight := \<lparr>cpu_data = d, cpu_diff = f\<rparr>\<rparr>) = Inr s2 \<and>
                 cpu_data (caffe_weight s2) = [1, 2, 3, 4, 5, 6, 7, 8] \<and>
                 cpu_diff (caffe_weight s2) = [10, 20, 30, 40, 50, 60, 70, 80])"
    unfolding cw by blast
  have l: "length (replicate 8 (0::real)) = 8 \<and> length (replicate 8 (0::real)) = 8" by simp
  from a [THEN spec, THEN spec, THEN mp, OF l]
  have "\<exists>s2. CuDNNToCaffe (s1\<lparr>caffe_weight :=
                 \<lparr>cpu_data = replicate 8 0, cpu_diff = replicate 8 0\<rparr>\<rparr>) = Inr s2 \<and>
         cpu_data (caffe_weight s2) = [1, 2, 3, 4, 5, 6, 7, 8] \<and>
         cpu_diff (caffe_weight s2) = [10, 20, 30, 40, 50, 60, 70, 80]" .
  with r have "\<exists>s1. CaffeToCuDNN example_stale = Inr s1 \<and>
      (\<exists>s2. CuDNNToCaffe (s1\<lparr>caffe_weight :=
                 \<lparr>cpu_data = replicate 8 0, cpu_diff = replicate 8 0\<rparr>\<rparr>) = Inr s2 \<and>
         cpu_data (caffe_weight s2) = [1, 2, 3, 4, 5, 6, 7, 8] \<and>
         cpu_diff (caffe_weight s2) = [10, 20, 30, 40, 50, 60, 70, 80])"
    by (intro exI [where x = s1]) (rule conjI)
  with stale_valid stale_bound show ?thesis by (intro conjI)
qed

lemma slot_index_inj:
  assumes "(c::nat) < cpg" "c' < cpg" "(k::nat) < kd" "k' < kd"
    and e: "(i * cpg + c) * kd + k = (i' * cpg + c') * kd + k'"
  shows "i = i' \<and> c = c' \<and> k = k'"
proof -
  from e have "((i * cpg + c) * kd + k) mod kd = ((i' * cpg + c') * kd + k') mod kd" by simp
  with assms(3,4) have k: "k = k'" by simp
  from e have "((i * cpg + c) * kd + k) div kd = ((i' * cpg + c') * kd + k') div kd" by simp
  with assms(3,4) have a: "i * cpg + c = i' * cpg + c'" by simp
  from a have "(i * cpg + c) div cpg = (i' * cpg + c') div cpg" by simp
  with assms(1,2) have i: "i = i'" by simp
  with a have "c = c'" by simp
  with i k show ?thesis by simp
qed

lemma slot_index_less:
  assumes "(i::nat) < n" "(c::nat) < cpg" "(k::nat) < kd"
  shows "(i * cpg + c) * kd + k < n * cpg * kd"
proof -
  have "i * cpg + c < Suc i * cpg" using assms(2) by simp
  also have "\<dots> \<le> n * cpg" using assms(1) by (intro mult_le_mono1) simp
  finally have "i * cpg + c + 1 \<le> n * cpg" by simp
  then have "(i * cpg + c + 1) * kd \<le> n * cpg * kd" by (rule mult_le_mono1)
  with assms(3) show ?thesis by simp
qed

lemma backend_slot:
  assumes "0 < cpg" "i < n" "c < cpg" "k < kd"
  shows "scatter_rows (idx_cudnn mult cpg kd) val kd n (replicate (n * cpg * kd) z)
           ! ((i * cpg + c) * kd + k) = (if c = slot_j mult cpg i then val i k else z)"
proof (cases "c = slot_j mult cpg i")
  case True
  then have "(i * cpg + c) * kd + k = idx_cudnn mult cpg kd i k"
    by (simp add: idx_cudnn_def)
  with backend_hit [OF assms(1,2,4), of mult val z] True show ?thesis by simp
next
  case False
  have "\<forall>i'<n. \<forall>k'<kd. (i * cpg + c) * kd + k \<noteq> idx_cudnn mult cpg kd i' k'"
  proof (intro allI impI notI)
    fix i' k' assume "i' < n" and k': "k' < kd"
      and "(i * cpg + c) * kd + k = idx_cudnn mult cpg kd i' k'"
    then have e: "(i * cpg + c) * kd + k = (i' * cpg + slot_j mult cpg i') * kd + k'"
      by (simp add: idx_cudnn_def)
    have "slot_j mult cpg i' < cpg" using assms(1) by (simp add: slot_j_def)
    from slot_index_inj [OF assms(3) this assms(4) k' e] False show False by simp
  qed
  with backend_other [OF slot_index_less [OF assms(2,3,4)]] False show ?thesis by simp
qed

text \<open>
  Claim C2. After \<^verbatim>\<open>CaffeToCuDNN\<close> the mask is 1 at every backend index
  \<open>idx_cudnn i k\<close>; among the \<open>cpg\<close> channel slots of an output channel \<open>i\<close> the slot
  \<open>j = i div mult mod cpg\<close> is the only one whose mask entries are 1, the others are 0;
  and every entry of the backend data, gradient and mask that is not at an index
  \<open>idx_cudnn i k\<close> is 0.
\<close>

theorem mask_and_zero_fill:
  assumes "valid_config s" "weights_bound s"
  shows "\<exists>s1. CaffeToCuDNN s = Inr s1 \<and>
     length (cpu_data (mask_blob s1)) = num_output s * (channels s div group_num s) * kernel_dim s \<and>
     length (cpu_data (blobs s1 ! 0)) = num_output s * (channels s div group_num s) * kernel_dim s \<and>
     length (cpu_diff (blobs s1 ! 0)) = num_output s * (channels s div group_num s) * kernel_dim s \<and>
     (\<forall>i<num_output s. \<forall>k<kernel_dim s.
        cpu_data (mask_blob s1) !
          idx_cudnn (multiplier s) (channels s div group_num s) (kernel_dim s) i k = 1) \<and>
     (\<forall>i<num_output s. \<forall>c<channels s div group_num s. \<forall>k<kernel_dim s.
        cpu_data (mask_blob s1) ! ((i * (channels s div group_num s) + c) * kernel_dim s + k) =
          (if c = slot_j (multiplier s) (channels s div group_num s) i then 1 else 0)) \<and>
     (\<forall>i<num_output s. \<forall>c<channels s div group_num s. \<forall>k<kernel_dim s.
        c \<noteq> slot_j (multiplier s) (channels s div group_num s) i \<longrightarrow>
        cpu_data (blobs s1 ! 0) ! ((i * (channels s div group_num s) + c) * kernel_dim s + k) = 0 \<and>
        cpu_diff (blobs s1 ! 0) ! ((i * (channels s div group_num s) + c) * kernel_dim s + k) = 0) \<and>
     (\<forall>p<num_output s * (channels s div group_num s) * kernel_dim s.
        (\<forall>i<num_output s. \<forall>k<kernel_dim s.
           p \<noteq> idx_cudnn (multiplier s) (channels s div group_num s) (kernel_dim s) i k) \<longrightarrow>
        cpu_data (blobs s1 ! 0) ! p = 0 \<and> cpu_diff (blobs s1 ! 0) ! p = 0 \<and>
        cpu_data (mask_blob s1) ! p = 0)"
proof -
  let ?m = "multiplier s" and ?cpg = "channels s div group_num s" and ?kd = "kernel_dim s"
    and ?n = "num_output s"
  let ?N = "?n * ?cpg * ?kd"
  let ?D = "scatter_rows (idx_cudnn ?m ?cpg ?kd)
              (\<lambda>i k. cpu_data (caffe_weight s) ! idx_caffe ?kd i k) ?kd ?n (replicate ?N 0)"
  let ?F = "scatter_rows (idx_cudnn ?m ?cpg ?kd)
              (\<lambda>i k. cpu_diff (caffe_weight s) ! idx_caffe ?kd i k) ?kd ?n (replicate ?N 0)"
  let ?M = "scatter_rows (idx_cudnn ?m ?cpg ?kd) (\<lambda>i k. 1::'a) ?kd ?n (replicate ?N 0)"
  define s1 where "s1 = s\<lparr>blobs := (blobs s)[0 := \<lparr>cpu_data = ?D, cpu_diff = ?F\<rparr>],
                          mask_blob := (mask_blob s)\<lparr>cpu_data := ?M\<rparr>\<rparr>"
  from assms(1) have c: "0 < ?cpg" by (simp add: valid_config_def)
  from assms(2) have b: "blobs s \<noteq> []" by (simp add: weights_bound_def)
  have r1: "CaffeToCuDNN s = Inr s1"
    unfolding s1_def by (rule CaffeToCuDNN_result [OF assms])
  have fields: "cpu_data (mask_blob s1) = ?M" "cpu_data (blobs s1 ! 0) = ?D"
    "cpu_diff (blobs s1 ! 0) = ?F"
    using b by (simp_all add: s1_def)
  have len: "length ?M = ?N" "length ?D = ?N" "length ?F = ?N"
    by simp_all
  have hit: "\<forall>i<?n. \<forall>k<?kd. ?M ! idx_cudnn ?m ?cpg ?kd i k = 1"
    by (simp add: backend_hit [OF c])
  have slot: "\<forall>i<?n. \<forall>c<?cpg. \<forall>k<?kd.
      ?M ! ((i * ?cpg + c) * ?kd + k) = (if c = slot_j ?m ?cpg i then 1 else 0)"
    by (simp add: backend_slot [OF c])
  have zero: "\<forall>i<?n. \<forall>c<?cpg. \<forall>k<?kd. c \<noteq> slot_j ?m ?cpg i \<longrightarrow>
      ?D ! ((i * ?cpg + c) * ?kd + k) = 0 \<and> ?F ! ((i * ?cpg + c) * ?kd + k) = 0"
    by (simp add: backend_slot [OF c])
  have other: "\<forall>p<?N. (\<forall>i<?n. \<forall>k<?kd. p \<noteq> idx_cudnn ?m ?cpg ?kd i k) \<longrightarrow>
      ?D ! p = 0 \<and> ?F ! p = 0 \<and> ?M ! p = 0"
    by (simp add: backend_other)
  show ?thesis
    apply (rule exI [of _ s1])
    unfolding fields
    using r1 len hit slot zero other by blast
qed

theorem mask_and_zero_fill_witness:
  "valid_config example_layer \<and> weights_bound example_layer \<and>
   (\<exists>s1. CaffeToCuDNN example_layer = Inr s1 \<and>
      length (cpu_data (mask_blob s1)) = 16 \<and>
      cpu_data (mask_blob s1) ! 10 = 1 \<and> cpu_data (mask_blob s1) ! 8 = 0 \<and>
      cpu_data (blobs s1 ! 0) ! 8 = 0 \<and> cpu_diff (blobs s1 ! 0) ! 8 = 0)"
proof -
  have f: "num_output example_layer = 4" "channels example_layer div group_num example_layer = 2"
    "kernel_dim example_layer = 2" "multiplier example_layer = 2"
    by (simp_all add: example_layer_def)
  from mask_and_zero_fill [OF example_valid example_bound]
  obtain s1 where r: "CaffeToCuDNN example_layer = Inr s1"
    and l: "length (cpu_data (mask_blob s1)) = 4 * 2 * 2"
    and h: "\<forall>i<4. \<forall>k<2. cpu_data (mask_blob s1) ! idx_cudnn 2 2 2 i k = (1::real)"
    and sl: "\<forall>i<4. \<forall>c<2. \<forall>k<2. cpu_data (mask_blob s1) ! ((i * 2 + c) * 2 + k) =
              (if c = slot_j 2 2 i then 1 else (0::real))"
    and z: "\<forall>i<4. \<forall>c<2. \<forall>k<2. c \<noteq> slot_j 2 2 i \<longrightarrow>
              cpu_data (blobs s1 ! 0) ! ((i * 2 + c) * 2 + k) = (0::real) \<and>
              cpu_diff (blobs s1 ! 0) ! ((i * 2 + c) * 2 + k) = (0::real)"
    unfolding f by blast
  from h [rule_format, of 2 0] have "cpu_data (mask_blob s1) ! 10 = 1"
    by (simp add: idx_cudnn_def slot_j_def)
  moreover from sl [rule_format, of 2 0 0] have "cpu_data (mask_blob s1) ! 8 = 0"
    by (simp add: slot_j_def)
  moreover from z [rule_format, of 2 0 0]
  have "cpu_data (blobs s1 ! 0) ! 8 = 0 \<and> cpu_diff (blobs s1 ! 0) ! 8 = 0"
    by (simp add: slot_j_def)
  ultimately show ?thesis
    using r l example_valid example_bound by simp
qed

text \<open>
  Claim C8. \<^verbatim>\<open>CuDNNToCaffe\<close> returns on a well-shaped layer, and whenever it returns the
  new state differs from the old one in the compact blob only: the backend blobs and
  the mask are unchanged, and so is every other member.
\<close>

theorem CuDNNToCaffe_frame:
  "(valid_config s \<and> weights_bound s \<longrightarrow> (\<exists>s'. CuDNNToCaffe s = Inr s')) \<and>
   (\<forall>s'. CuDNNToCaffe s = Inr s' \<longrightarrow>
      blobs s' = blobs s \<and> mask_blob s' = mask_blob s \<and>
      s' = s\<lparr>caffe_weight := caffe_weight s'\<rparr>)"
proof (intro conjI allI impI)
  assume "valid_config s \<and> weights_bound s"
  then show "\<exists>s'. CuDNNToCaffe s = Inr s'"
    using CuDNNToCaffe_result [of s] by simp
next
  fix s' assume r: "CuDNNToCaffe s = Inr s'"
  then have e: "s' = s\<lparr>caffe_weight := caffe_weight s'\<rparr>"
    by (auto simp: CuDNNToCaffe_def Let_def bindE_def split: if_splits sum.splits prod.splits)
  from e have "blobs s' = blobs (s\<lparr>caffe_weight := caffe_weight s'\<rparr>)"
    "mask_blob s' = mask_blob (s\<lparr>caffe_weight := caffe_weight s'\<rparr>)"
    by simp_all
  then show "blobs s' = blobs s" "mask_blob s' = mask_blob s" by simp_all
  from e show "s' = s\<lparr>caffe_weight := caffe_weight s'\<rparr>" .
qed

theorem CuDNNToCaffe_frame_witness:
  "valid_config example_layer \<and> weights_bound example_layer \<and>
   (\<exists>s'. CuDNNToCaffe example_layer = Inr s' \<and>
      blobs s' = blobs example_layer \<and> mask_blob s' = mask_blob example_layer \<and>
      s' = example_layer\<lparr>caffe_weight := caffe_weight s'\<rparr>)"
proof -
  from CuDNNToCaffe_frame [of example_layer] example_valid example_bound
  obtain s' where r: "CuDNNToCaffe example_layer = Inr s'" by blast
  with CuDNNToCaffe_frame [of example_layer]
  have "blobs s' = blobs example_layer \<and> mask_blob s' = mask_blob example_layer \<and>
      s' = example_layer\<lparr>caffe_weight := caffe_weight s'\<rparr>" by blast
  with r example_valid example_bound show ?thesis by blast
qed

section \<open>Properties of serialization\<close>

lemma map_nth_from_1: "map (\<lambda>i. f (xs ! i)) [Suc 0..<length xs] = map f (tl xs)"
proof (cases xs)
  case Nil
  then show ?thesis by simp
next
  case (Cons x ys)
  have "map (\<lambda>i. f ((x # ys) ! i)) [Suc 0..<Suc (length ys)] = map (\<lambda>i. f (ys ! i)) [0..<length ys]"
    by (simp only: map_Suc_upt [symmetric] map_map o_def nth_Cons_Suc)
  also have "\<dots> = map f (map (\<lambda>i. ys ! i) [0..<length ys])"
    by (simp add: o_def)
  also have "\<dots> = map f ys"
    by (simp only: map_nth)
  finally show ?thesis using Cons by simp
qed

lemma CuDNNToCaffe_mask:
  "CuDNNToCaffe (s\<lparr>mask_blob := m\<rparr>) = bindE (CuDNNToCaffe s) (\<lambda>t. Inr (t\<lparr>mask_blob := m\<rparr>))"
  by (simp add: CuDNNToCaffe_def Let_def bindE_def split: sum.splits prod.splits)

lemma CuDNNToCaffe_example: "CuDNNToCaffe example_layer = Inr example_layer"
  by code_simp

text \<open>
  Claim C7. With bound parameters \<^verbatim>\<open>ToProto\<close> first refreshes the compact blob by
  \<^verbatim>\<open>CuDNNToCaffe\<close> and then hands to the serializer \<open>f\<close> the compact blob
  \<^verbatim>\<open>caffe_weight_\<close>, followed by the blobs after the first; the compact blob it writes
  has one kernel per output channel, gathered from the backend blob. The serializer is
  never applied to the backend blob \<^verbatim>\<open>blobs_[0]\<close> nor to the mask, and the output is the
  same whatever the mask holds.
\<close>

theorem ToProto_emits_compact_weight:
  assumes "valid_config s" "weights_bound s"
  shows "\<exists>s'. CuDNNToCaffe s = Inr s' \<and>
     ToProto f write_diff s = Inr (s', f write_diff (caffe_weight s') # map (f write_diff) (tl (blobs s))) \<and>
     length (cpu_data (caffe_weight s')) = num_output s * kernel_dim s \<and>
     length (cpu_diff (caffe_weight s')) = num_output s * kernel_dim s \<and>
     (\<forall>i<num_output s. \<forall>k<kernel_dim s.
        cpu_data (caffe_weight s') ! idx_caffe (kernel_dim s) i k =
          cpu_data (blobs s ! 0) !
            idx_cudnn (multiplier s) (channels s div group_num s) (kernel_dim s) i k \<and>
        cpu_diff (caffe_weight s') ! idx_caffe (kernel_dim s) i k =
          cpu_diff (blobs s ! 0) !
            idx_cudnn (multiplier s) (channels s div group_num s) (kernel_dim s) i k) \<and>
     (\<forall>m. ToProto f write_diff (s\<lparr>mask_blob := m\<rparr>) =
        Inr (s'\<lparr>mask_blob := m\<rparr>,
             f write_diff (caffe_weight s') # map (f write_diff) (tl (blobs s))))"
proof -
  let ?m = "multiplier s" and ?cpg = "channels s div group_num s" and ?kd = "kernel_dim s"
    and ?n = "num_output s"
  let ?A = "scatter_rows (idx_caffe ?kd) (\<lambda>i k. cpu_data (blobs s ! 0) ! idx_cudnn ?m ?cpg ?kd i k)
              ?kd ?n (cpu_data (caffe_weight s))"
  let ?B = "scatter_rows (idx_caffe ?kd) (\<lambda>i k. cpu_diff (blobs s ! 0) ! idx_cudnn ?m ?cpg ?kd i k)
              ?kd ?n (cpu_diff (caffe_weight s))"
  define s' where "s' = s\<lparr>caffe_weight := \<lparr>cpu_data = ?A, cpu_diff = ?B\<rparr>\<rparr>"
  have r: "CuDNNToCaffe s = Inr s'"
    unfolding s'_def by (rule CuDNNToCaffe_result [OF assms])
  from assms(2) have b: "blobs s \<noteq> []"
    and la: "length (cpu_data (caffe_weight s)) = ?n * ?kd"
            "length (cpu_diff (caffe_weight s)) = ?n * ?kd"
    by (simp_all add: weights_bound_def)
  have fields: "cpu_data (caffe_weight s') = ?A" "cpu_diff (caffe_weight s') = ?B"
    "blobs s' = blobs s"
    by (simp_all add: s'_def)
  have inj: "\<forall>i k i' k'. i < ?n \<and> i' < ?n \<and> k < ?kd \<and> k' < ?kd \<and>
      idx_caffe ?kd i k = idx_caffe ?kd i' k' \<longrightarrow> i = i' \<and> k = k'"
    using idx_caffe_inj by blast
  have hitA: "\<forall>i<?n. \<forall>k<?kd. ?A ! idx_caffe ?kd i k = cpu_data (blobs s ! 0) ! idx_cudnn ?m ?cpg ?kd i k"
    using la by (auto intro!: scatter_rows_hit [OF inj] simp: idx_caffe_less)
  have hitB: "\<forall>i<?n. \<forall>k<?kd. ?B ! idx_caffe ?kd i k = cpu_diff (blobs s ! 0) ! idx_cudnn ?m ?cpg ?kd i k"
    using la by (auto intro!: scatter_rows_hit [OF inj] simp: idx_caffe_less)
  have p: "ToProto f write_diff s =
      Inr (s', f write_diff (caffe_weight s') # map (f write_diff) (tl (blobs s)))"
    using b by (simp add: ToProto_def r fields map_nth_from_1)
  have pm: "ToProto f write_diff (s\<lparr>mask_blob := m\<rparr>) =
      Inr (s'\<lparr>mask_blob := m\<rparr>, f write_diff (caffe_weight s') # map (f write_diff) (tl (blobs s)))" for m
    using b by (simp add: ToProto_def CuDNNToCaffe_mask r fields map_nth_from_1)
  show ?thesis
    apply (rule exI [of _ s'])
    unfolding fields
    using r p [unfolded fields] pm [unfolded fields] la hitA hitB by simp
qed

theorem ToProto_emits_compact_weight_witness:
  "valid_config example_layer \<and> weights_bound example_layer \<and>
   ToProto (\<lambda>write_diff b. (cpu_data b, if write_diff then cpu_diff b else [])) True example_layer =
     Inr (example_layer,
          [([1, 2, 3, 4, 5, 6, 7, 8], [10, 20, 30, 40, 50, 60, 70, 80]),
           ([9, 9, 9, 9], [0, 0, 0, 0])])"
proof -
  from ToProto_emits_compact_weight [OF example_valid example_bound,
      of "\<lambda>write_diff b. (cpu_data b, if write_diff then cpu_diff b else [])" True]
  have "ToProto (\<lambda>write_diff b. (cpu_data b, if write_diff then cpu_diff b else [])) True example_layer =
     Inr (example_layer, (cpu_data (caffe_weight example_layer), cpu_diff (caffe_weight example_layer)) #
          map (\<lambda>b. (cpu_data b, cpu_diff b)) (tl (blobs example_layer)))"
    by (auto simp: CuDNNToCaffe_example)
  then show ?thesis
    using example_valid example_bound by (simp add: example_layer_def)
qed

section \<open>Properties of setup, planning and teardown\<close>

lemma bindE_eq_Inr: "bindE m f = Inr y \<longleftrightarrow> (\<exists>x. m = Inr x \<and> f x = Inr y)"
  by (cases m) simp_all

lemma bindE_eq_Inl: "bindE m f = Inl e \<longleftrightarrow> m = Inl e \<or> (\<exists>x. m = Inr x \<and> f x = Inl e)"
  by (cases m) simp_all

lemma for_loop_invariant:
  assumes "for_loop n body s = Inr s'" "P s"
    and "\<And>i t t'. P t \<Longrightarrow> body i t = Inr t' \<Longrightarrow> P t'"
  shows "P s'"
  using assms(1)
proof (induction n arbitrary: s')
  case 0
  with assms(2) show ?case by simp
next
  case (Suc n)
  then obtain t where "for_loop n body s = Inr t" "body n t = Inr s'"
    by (auto simp: bindE_eq_Inr)
  with Suc.IH assms(3) show ?case by blast
qed

lemma for_loop_no_check:
  assumes "\<And>i t. body i t \<noteq> Inl (CheckFailed msg)"
  shows "for_loop n body s \<noteq> Inl (CheckFailed msg)"
proof (induction n)
  case 0
  show ?case by simp
next
  case (Suc n)
  with assms show ?case by (auto simp: bindE_eq_Inl)
qed

lemma caffe_set_no_check: "caffe_set N a Y \<noteq> Inl (CheckFailed msg)"
  by (simp add: caffe_set_def)

lemma CaffeToCuDNN_body_no_check:
  "CaffeToCuDNN_body mult cpg kd ca cf i k t \<noteq> Inl (CheckFailed msg)"
  by (cases t) (simp add: CaffeToCuDNN_body_def Let_def)

lemma CaffeToCuDNN_no_check: "CaffeToCuDNN s \<noteq> Inl (CheckFailed msg)"
proof -
  have loop: "for_loop n (\<lambda>i. for_loop kd (CaffeToCuDNN_body mult cpg kd ca cf i)) t
      \<noteq> Inl (CheckFailed msg)" for n kd mult cpg ca cf and t :: "'a list \<times> 'a list \<times> 'a list"
    by (intro for_loop_no_check CaffeToCuDNN_body_no_check)
  show ?thesis
    by (auto simp: CaffeToCuDNN_def Let_def bindE_eq_Inl caffe_set_no_check loop split: prod.splits)
qed

lemma release_no_check: "release r s \<noteq> Inl (CheckFailed msg)"
  by (simp add: release_def)

lemma cudaFree_no_check: "cudaFree p s \<noteq> Inl (CheckFailed msg)"
  by (simp add: cudaFree_def release_no_check)

lemma Reshape_query_no_check: "Reshape_query be i s \<noteq> Inl (CheckFailed msg)"
  by (simp add: Reshape_query_def split: option.splits)

lemma force_zero_memory_no_check: "force_zero_memory i s \<noteq> Inl (CheckFailed msg)"
  by (simp add: force_zero_memory_def)

lemma set_workspace_no_check: "set_workspace g p s \<noteq> Inl (CheckFailed msg)"
  by (simp add: set_workspace_def)

lemma Reshape_workspace_no_check: "Reshape_workspace n be s \<noteq> Inl (CheckFailed msg)"
proof -
  have a: "for_loop k (\<lambda>g. set_workspace g 0) t \<noteq> Inl (CheckFailed msg)"
    for k and t :: "'a CuDNNDepthwiseLayer"
    by (intro for_loop_no_check set_workspace_no_check)
  have b: "for_loop k (\<lambda>g s. set_workspace g (workspaceData s + of_nat g * m) s) t \<noteq> Inl (CheckFailed msg)"
    for k m and t :: "'a CuDNNDepthwiseLayer"
    by (intro for_loop_no_check set_workspace_no_check)
  have c: "for_loop k force_zero_memory t \<noteq> Inl (CheckFailed msg)"
    for k and t :: "'a CuDNNDepthwiseLayer"
    by (intro for_loop_no_check force_zero_memory_no_check)
  show ?thesis
    by (auto simp: Reshape_workspace_def Let_def bindE_eq_Inl cudaFree_no_check a b c
        split: option.splits)
qed

text \<open>
  Claim C6. The \<^verbatim>\<open>CHECK_EQ\<close> of \<^verbatim>\<open>LayerSetUp\<close> fails exactly when the channel count is not a
  multiple of the (non-zero) group count, and the \<^verbatim>\<open>CHECK_EQ\<close> of \<^verbatim>\<open>Reshape\<close> fails exactly
  when the number of spatial axes is not 2; with both conditions met neither check
  fires. A failed check is the result of the call, so no layer state is produced. A
  group count of 0 ends \<^verbatim>\<open>LayerSetUp\<close> too, in the division of line 27.
\<close>

theorem configuration_checks:
  "((\<exists>msg. LayerSetUp nbottom backend_ok s = Inl (CheckFailed msg)) \<longleftrightarrow>
      param_group s \<noteq> 0 \<and> channels s mod param_group s \<noteq> 0) \<and>
   (param_group s = 0 \<longrightarrow> LayerSetUp nbottom backend_ok s = Inl DivisionByZero) \<and>
   ((\<exists>msg. Reshape nbottom be s = Inl (CheckFailed msg)) \<longleftrightarrow> num_spatial_axes s \<noteq> 2)"
proof (intro conjI)
  show "(\<exists>msg. LayerSetUp nbottom backend_ok s = Inl (CheckFailed msg)) \<longleftrightarrow>
      param_group s \<noteq> 0 \<and> channels s mod param_group s \<noteq> 0"
    by (auto simp: LayerSetUp_def Let_def bindE_eq_Inl CaffeToCuDNN_no_check)
  show "param_group s = 0 \<longrightarrow> LayerSetUp nbottom backend_ok s = Inl DivisionByZero"
    by (simp add: LayerSetUp_def)
  have q: "for_loop k (Reshape_query be) t \<noteq> Inl (CheckFailed msg)"
    for k msg and t :: "'a CuDNNDepthwiseLayer"
    by (intro for_loop_no_check Reshape_query_no_check)
  show "(\<exists>msg. Reshape nbottom be s = Inl (CheckFailed msg)) \<longleftrightarrow> num_spatial_axes s \<noteq> 2"
    by (auto simp: Reshape_def bindE_eq_Inl q Reshape_workspace_no_check)
qed

lemma scatter_id_nth:
  "g < k \<Longrightarrow> k \<le> length buf \<Longrightarrow> scatter (\<lambda>g. g) val k buf ! g = val g"
  using scatter_hit [of "\<lambda>g. g" k g buf val] by simp

lemma set_workspace_loop:
  "for_loop k (\<lambda>g s. set_workspace g (workspaceData s + of_nat g * m) s) s =
     (if k \<le> length (workspace s)
      then Inr (s\<lparr>workspace := scatter (\<lambda>g. g) (\<lambda>g. workspaceData s + of_nat g * m) k (workspace s)\<rparr>)
      else Inl OutOfBounds)"
proof (induction k)
  case 0
  show ?case by simp
next
  case (Suc k)
  show ?case
    by (simp add: Suc.IH) (auto simp: set_workspace_def)
qed

lemma null_workspace_loop:
  "for_loop k (\<lambda>g. set_workspace g 0) s =
     (if k \<le> length (workspace s)
      then Inr (s\<lparr>workspace := scatter (\<lambda>g. g) (\<lambda>g. 0) k (workspace s)\<rparr>)
      else Inl OutOfBounds)"
proof (induction k)
  case 0
  show ?case by simp
next
  case (Suc k)
  show ?case
    by (simp add: Suc.IH) (auto simp: set_workspace_def)
qed

lemma force_zero_memory_loop:
  "for_loop n force_zero_memory s =
     (if n \<le> length (workspace_fwd_sizes s) \<and> n \<le> length (workspace_bwd_filter_sizes s) \<and>
         n \<le> length (workspace_bwd_data_sizes s) \<and> n \<le> length (fwd_algo s) \<and>
         n \<le> length (bwd_filter_algo s) \<and> n \<le> length (bwd_data_algo s)
      then Inr (s\<lparr>workspace_fwd_sizes := scatter (\<lambda>i. i) (\<lambda>i. 0) n (workspace_fwd_sizes s),
                  workspace_bwd_filter_sizes := scatter (\<lambda>i. i) (\<lambda>i. 0) n (workspace_bwd_filter_sizes s),
                  workspace_bwd_data_sizes := scatter (\<lambda>i. i) (\<lambda>i. 0) n (workspace_bwd_data_sizes s),
                  fwd_algo := scatter (\<lambda>i. i) (\<lambda>i. CUDNN_CONVOLUTION_FWD_ALGO_IMPLICIT_GEMM) n (fwd_algo s),
                  bwd_filter_algo := scatter (\<lambda>i. i) (\<lambda>i. CUDNN_CONVOLUTION_BWD_FILTER_ALGO_0) n (bwd_filter_algo s),
                  bwd_data_algo := scatter (\<lambda>i. i) (\<lambda>i. CUDNN_CONVOLUTION_BWD_DATA_ALGO_0) n (bwd_data_algo s)\<rparr>)
      else Inl OutOfBounds)"
proof (induction n)
  case 0
  show ?case by simp
next
  case (Suc n)
  show ?case
    by (simp add: Suc.IH) (auto simp: force_zero_memory_def)
qed

lemma cudaFree_result: "cudaFree p s = Inr t \<Longrightarrow> \<exists>l. t = s\<lparr>live := l\<rparr>"
proof (cases "p = 0")
  case True
  assume "cudaFree p s = Inr t"
  with True have "t = s\<lparr>live := live s\<rparr>" by (simp add: cudaFree_def)
  then show ?thesis ..
next
  case False
  assume "cudaFree p s = Inr t"
  with False have "t = s\<lparr>live := remove1 (DeviceMem p) (live s)\<rparr>"
    by (simp add: cudaFree_def release_def split: if_splits)
  then show ?thesis ..
qed

lemma Reshape_workspace_result:
  assumes r: "Reshape_workspace n be s = Inr s'"
  shows "(\<not> workspaceSizeInBytes s < total_max_workspace n s \<and> s' = s) \<or>
     (workspaceSizeInBytes s < total_max_workspace n s \<and>
      (\<exists>p. cudaMalloc be (total_max_workspace n s) = Some p \<and>
           workspaceSizeInBytes s' = total_max_workspace n s \<and> workspaceData s' = p \<and>
           workspace_fwd_sizes s' = workspace_fwd_sizes s \<and>
           workspace_bwd_filter_sizes s' = workspace_bwd_filter_sizes s \<and>
           workspace_bwd_data_sizes s' = workspace_bwd_data_sizes s \<and>
           (\<forall>g<CUDNN_STREAMS_DEPTHWISE. workspace s' ! g = p + of_nat g * max_workspace n s))) \<or>
     (workspaceSizeInBytes s < total_max_workspace n s \<and>
      cudaMalloc be (total_max_workspace n s) = None \<and>
      workspaceSizeInBytes s' = 0 \<and> workspaceData s' = 0 \<and>
      (\<forall>i<n. workspace_fwd_sizes s' ! i = 0 \<and> workspace_bwd_filter_sizes s' ! i = 0 \<and>
             workspace_bwd_data_sizes s' ! i = 0 \<and>
             fwd_algo s' ! i = CUDNN_CONVOLUTION_FWD_ALGO_IMPLICIT_GEMM \<and>
             bwd_filter_algo s' ! i = CUDNN_CONVOLUTION_BWD_FILTER_ALGO_0 \<and>
             bwd_data_algo s' ! i = CUDNN_CONVOLUTION_BWD_DATA_ALGO_0) \<and>
      (\<forall>g<CUDNN_STREAMS_DEPTHWISE. workspace s' ! g = of_nat g * max_workspace n s))"
proof (cases "workspaceSizeInBytes s < total_max_workspace n s")
  case False
  with r show ?thesis by (simp add: Reshape_workspace_def Let_def)
next
  case True
  let ?tot = "total_max_workspace n s" and ?m = "max_workspace n s"
  from r True obtain t u where
    f: "cudaFree (workspaceData s) (s\<lparr>workspaceSizeInBytes := ?tot\<rparr>) = Inr t"
    and a: "(case cudaMalloc be (workspaceSizeInBytes t) of
               Some p \<Rightarrow> Inr (t\<lparr>workspaceData := p, live := DeviceMem p # live t\<rparr>)
             | None \<Rightarrow>
                 bindE (for_loop n force_zero_memory t) (\<lambda>s.
                 bindE (for_loop CUDNN_STREAMS_DEPTHWISE (\<lambda>g. set_workspace g 0) s) (\<lambda>s.
                 Inr (s\<lparr>workspaceData := 0, workspaceSizeInBytes := 0\<rparr>)))) = Inr u"
    and w: "for_loop CUDNN_STREAMS_DEPTHWISE
              (\<lambda>g s. set_workspace g (workspaceData s + of_nat g * ?m) s) u = Inr s'"
    by (auto simp: Reshape_workspace_def Let_def bindE_eq_Inr)
  from cudaFree_result [OF f] obtain l where t: "t = s\<lparr>workspaceSizeInBytes := ?tot, live := l\<rparr>"
    by auto
  from w have len: "CUDNN_STREAMS_DEPTHWISE \<le> length (workspace u)"
    and s': "s' = u\<lparr>workspace := scatter (\<lambda>g. g) (\<lambda>g. workspaceData u + of_nat g * ?m)
                CUDNN_STREAMS_DEPTHWISE (workspace u)\<rparr>"
    by (auto simp: set_workspace_loop split: if_splits)
  have ws: "\<forall>g<CUDNN_STREAMS_DEPTHWISE. workspace s' ! g = workspaceData u + of_nat g * ?m"
    using len by (simp add: s' scatter_id_nth)
  show ?thesis
  proof (cases "cudaMalloc be ?tot")
    case (Some p)
    with a t have u: "u = t\<lparr>workspaceData := p, live := DeviceMem p # live t\<rparr>"
      by simp
    have "workspaceSizeInBytes s' = ?tot" "workspaceData s' = p"
      "workspace_fwd_sizes s' = workspace_fwd_sizes s"
      "workspace_bwd_filter_sizes s' = workspace_bwd_filter_sizes s"
      "workspace_bwd_data_sizes s' = workspace_bwd_data_sizes s"
      "workspaceData u = p"
      by (simp_all add: s' u t)
    with ws True Some show ?thesis by simp
  next
    case None
    with a t obtain v where
      z: "for_loop n force_zero_memory t = Inr v"
      and nl: "for_loop CUDNN_STREAMS_DEPTHWISE (\<lambda>g. set_workspace g 0) v = Inr
                 (v\<lparr>workspace := scatter (\<lambda>g. g) (\<lambda>g. 0) CUDNN_STREAMS_DEPTHWISE (workspace v)\<rparr>)"
      and u: "u = v\<lparr>workspace := scatter (\<lambda>g. g) (\<lambda>g. 0) CUDNN_STREAMS_DEPTHWISE (workspace v),
                    workspaceData := 0, workspaceSizeInBytes := 0\<rparr>"
      by (auto simp: bindE_eq_Inr null_workspace_loop split: if_splits)
    from z have lens: "n \<le> length (workspace_fwd_sizes t)" "n \<le> length (workspace_bwd_filter_sizes t)"
      "n \<le> length (workspace_bwd_data_sizes t)" "n \<le> length (fwd_algo t)"
      "n \<le> length (bwd_filter_algo t)" "n \<le> length (bwd_data_algo t)"
      by (auto simp: force_zero_memory_loop split: if_splits)
    from z have v: "v = t\<lparr>workspace_fwd_sizes := scatter (\<lambda>i. i) (\<lambda>i. 0) n (workspace_fwd_sizes t),
                  workspace_bwd_filter_sizes := scatter (\<lambda>i. i) (\<lambda>i. 0) n (workspace_bwd_filter_sizes t),
                  workspace_bwd_data_sizes := scatter (\<lambda>i. i) (\<lambda>i. 0) n (workspace_bwd_data_sizes t),
                  fwd_algo := scatter (\<lambda>i. i) (\<lambda>i. CUDNN_CONVOLUTION_FWD_ALGO_IMPLICIT_GEMM) n (fwd_algo t),
                  bwd_filter_algo := scatter (\<lambda>i. i) (\<lambda>i. CUDNN_CONVOLUTION_BWD_FILTER_ALGO_0) n (bwd_filter_algo t),
                  bwd_data_algo := scatter (\<lambda>i. i) (\<lambda>i. CUDNN_CONVOLUTION_BWD_DATA_ALGO_0) n (bwd_data_algo t)\<rparr>"
      by (auto simp: force_zero_memory_loop split: if_splits)
    have zero: "\<forall>i<n. workspace_fwd_sizes s' ! i = 0 \<and> workspace_bwd_filter_sizes s' ! i = 0 \<and>
             workspace_bwd_data_sizes s' ! i = 0 \<and>
             fwd_algo s' ! i = CUDNN_CONVOLUTION_FWD_ALGO_IMPLICIT_GEMM \<and>
             bwd_filter_algo s' ! i = CUDNN_CONVOLUTION_BWD_FILTER_ALGO_0 \<and>
             bwd_data_algo s' ! i = CUDNN_CONVOLUTION_BWD_DATA_ALGO_0"
      using lens by (simp add: s' u v scatter_id_nth)
    have "workspaceSizeInBytes s' = 0" "workspaceData s' = 0" "workspaceData u = 0"
      by (simp_all add: s' u)
    with ws zero True None show ?thesis by simp
  qed
qed

lemma max_workspace_eq: "max_workspace n s = perStreamMax n s"
proof -
  let ?a = "workspace_fwd_sizes s" and ?b = "workspace_bwd_data_sizes s"
    and ?c = "workspace_bwd_filter_sizes s"
  have "max (max (reduce_max ?a n) (reduce_max ?b n)) (reduce_max ?c n) =
        Max (insert 0 ((\<lambda>i. max (max (?a ! i) (?b ! i)) (?c ! i)) ` {..<n}))"
  proof (induction n)
    case 0
    show ?case by simp
  next
    case (Suc n)
    let ?f = "\<lambda>i. max (max (?a ! i) (?b ! i)) (?c ! i)"
    have "Max (insert 0 (?f ` {..<Suc n})) = Max (insert (?f n) (insert 0 (?f ` {..<n})))"
      by (simp add: lessThan_Suc insert_commute)
    also have "\<dots> = max (?f n) (Max (insert 0 (?f ` {..<n})))"
      by (rule Max_insert) simp_all
    also have "\<dots> = max (?f n) (max (max (reduce_max ?a n) (reduce_max ?b n)) (reduce_max ?c n))"
      by (simp only: Suc.IH)
    finally show ?case
      by (simp add: max.assoc max.left_commute max.commute)
  qed
  then show ?thesis
    by (simp add: max_workspace_def perStreamMax_def Let_def)
qed

lemma Reshape_query_frame:
  "Reshape_query be i t = Inr t' \<Longrightarrow>
     workspaceSizeInBytes t' = workspaceSizeInBytes t \<and> workspaceData t' = workspaceData t \<and>
     workspace t' = workspace t \<and> live t' = live t"
  by (auto simp: Reshape_query_def split: if_splits option.splits)

lemma Reshape_result:
  assumes "Reshape n be s = Inr s'"
  shows "\<exists>s1. for_loop n (Reshape_query be)
                 (s\<lparr>bottom_offset := bottom_dim s div group_num s,
                    top_offset := top_dim s div group_num s\<rparr>) = Inr s1 \<and>
              Reshape_workspace n be s1 = Inr s' \<and>
              workspaceSizeInBytes s1 = workspaceSizeInBytes s \<and> workspaceData s1 = workspaceData s"
proof -
  let ?s0 = "s\<lparr>bottom_offset := bottom_dim s div group_num s,
                top_offset := top_dim s div group_num s\<rparr>"
  from assms obtain s1 where q: "for_loop n (Reshape_query be) ?s0 = Inr s1"
    and w: "Reshape_workspace n be s1 = Inr s'"
    by (auto simp: Reshape_def bindE_eq_Inr split: if_splits)
  have "workspaceSizeInBytes s1 = workspaceSizeInBytes s \<and> workspaceData s1 = workspaceData s"
  proof (rule for_loop_invariant [OF q])
    show "workspaceSizeInBytes ?s0 = workspaceSizeInBytes s \<and> workspaceData ?s0 = workspaceData s"
      by simp
  next
    fix i t t'
    assume "workspaceSizeInBytes t = workspaceSizeInBytes s \<and> workspaceData t = workspaceData s"
      "Reshape_query be i t = Inr t'"
    then show "workspaceSizeInBytes t' = workspaceSizeInBytes s \<and> workspaceData t' = workspaceData s"
      using Reshape_query_frame [of be i t t'] by simp
  qed
  with q w show ?thesis by blast
qed


text \<open>
  Claim C4. The pool size that \<^verbatim>\<open>Reshape\<close> requires (\<open>total_max_workspace\<close>, line 199) is
  three times \<open>perStreamMax\<close>, the maximum over the bound inputs of the largest of
  the input's forward, backward-data and backward-filter sizes (in \<^verbatim>\<open>size_t\<close>
  arithmetic, and as numbers whenever the product fits 64 bits). When the required
  size exceeds the current one and the allocation succeeds with address \<open>p\<close>, the
  pool has that size and stream \<open>g\<close> gets the region at \<open>p + g * perStreamMax\<close>,
  for \<open>g = 0, 1, 2\<close>. The state \<open>s\<close> is the layer after the queries of lines
  136--179, as the last part says.
\<close>

theorem scratch_pool_size_and_slices:
  "total_max_workspace n s = perStreamMax n s * 3 \<and>
   (unat (perStreamMax n s) * 3 < 2 ^ 64 \<longrightarrow>
      unat (total_max_workspace n s) = unat (perStreamMax n s) * 3) \<and>
   (\<forall>s' p. Reshape_workspace n be s = Inr s' \<and>
           workspaceSizeInBytes s < total_max_workspace n s \<and>
           cudaMalloc be (total_max_workspace n s) = Some p \<longrightarrow>
           workspaceSizeInBytes s' = perStreamMax n s * 3 \<and> workspaceData s' = p \<and>
           (\<forall>g<3. workspace s' ! g = p + of_nat g * perStreamMax n s)) \<and>
   (\<forall>s'. Reshape n be s = Inr s' \<longrightarrow>
      (\<exists>s1. for_loop n (Reshape_query be)
                (s\<lparr>bottom_offset := bottom_dim s div group_num s,
                   top_offset := top_dim s div group_num s\<rparr>) = Inr s1 \<and>
             Reshape_workspace n be s1 = Inr s'))"
proof (intro conjI allI impI)
  show t: "total_max_workspace n s = perStreamMax n s * 3"
    by (simp add: total_max_workspace_def max_workspace_eq CUDNN_STREAMS_DEPTHWISE_def)
  show "unat (total_max_workspace n s) = unat (perStreamMax n s) * 3"
    if "unat (perStreamMax n s) * 3 < 2 ^ 64"
    using that by (simp add: t unat_word_ariths)
  have ok: "workspaceSizeInBytes s' = perStreamMax n s * 3 \<and> workspaceData s' = p \<and>
      (\<forall>g<3. workspace s' ! g = p + of_nat g * perStreamMax n s)"
    if "Reshape_workspace n be s = Inr s' \<and> workspaceSizeInBytes s < total_max_workspace n s \<and>
        cudaMalloc be (total_max_workspace n s) = Some p" for s' p
    using Reshape_workspace_result [of n be s s'] that
    by (auto simp: t max_workspace_eq CUDNN_STREAMS_DEPTHWISE_def)
  show "workspaceSizeInBytes s' = perStreamMax n s * 3"
    if "Reshape_workspace n be s = Inr s' \<and> workspaceSizeInBytes s < total_max_workspace n s \<and>
        cudaMalloc be (total_max_workspace n s) = Some p" for s' p
    using ok [OF that] by simp
  show "workspaceData s' = p"
    if "Reshape_workspace n be s = Inr s' \<and> workspaceSizeInBytes s < total_max_workspace n s \<and>
        cudaMalloc be (total_max_workspace n s) = Some p" for s' p
    using ok [OF that] by simp
  show "workspace s' ! g = p + of_nat g * perStreamMax n s"
    if "Reshape_workspace n be s = Inr s' \<and> workspaceSizeInBytes s < total_max_workspace n s \<and>
        cudaMalloc be (total_max_workspace n s) = Some p" and "g < 3" for s' p g
    using ok [OF that(1)] that(2) by simp
  show "\<exists>s1. for_loop n (Reshape_query be)
                (s\<lparr>bottom_offset := bottom_dim s div group_num s,
                   top_offset := top_dim s div group_num s\<rparr>) = Inr s1 \<and>
             Reshape_workspace n be s1 = Inr s'"
    if "Reshape n be s = Inr s'" for s'
    using Reshape_result [OF that] by blast
qed




lemma Reshape_failing_example:
  "Reshape 1 failing_backend example_layer =
     Inr (example_layer\<lparr>bottom_offset := 12, top_offset := 24, workspace := [0, 1024, 2048]\<rparr>)"
  by code_simp

lemma Reshape_working_example:
  "Reshape_workspace 1 working_backend example_planned =
     Inr (example_planned\<lparr>workspaceSizeInBytes := 3072, workspaceData := 4096,
            workspace := [4096, 5120, 6144], live := DeviceMem 4096 # live example_planned\<rparr>)"
  by code_simp


lemma perStreamMax_example: "perStreamMax 1 example_planned = 1024"
  by (simp add: perStreamMax_def example_planned_def example_layer_def lessThan_Suc)

lemma bindE_assoc: "bindE (bindE m f) g = bindE m (\<lambda>x. bindE (f x) g)"
  by (cases m) simp_all

lemma bindE_set_live: "bindE (set_live s m) f = bindE m (\<lambda>l. f (s\<lparr>live := l\<rparr>))"
  by (cases m) (simp_all add: set_live_def)

lemma release_list_append:
  "release_list (xs @ ys) l = bindE (release_list xs l) (release_list ys)"
  by (induction xs arbitrary: l) simp_all

lemma release_live:
  "release r (s\<lparr>live := l\<rparr>) = set_live s (release_list [r] l)"
  by (simp add: release_def set_live_def)

lemma cudaFree_live:
  "cudaFree p (s\<lparr>live := l\<rparr>) = set_live s (release_list (if p = 0 then [] else [DeviceMem p]) l)"
  by (simp add: cudaFree_def release_live) (simp add: set_live_def)

lemma set_live_bind:
  "bindE m (\<lambda>l. set_live s (f l)) = set_live s (bindE m f)"
  by (cases m) (simp_all add: set_live_def)

lemma destroy_descs_live:
  "i < length (bottom_descs s) \<Longrightarrow> i < length (top_descs s) \<Longrightarrow> i < length (conv_descs s) \<Longrightarrow>
   destroy_descs i (s\<lparr>live := l\<rparr>) =
     set_live s (release_list [bottom_descs s ! i, top_descs s ! i, conv_descs s ! i] l)"
proof -
  have e: "release_list [a, b, c] l =
      bindE (release_list [a] l) (\<lambda>l. bindE (release_list [b] l) (release_list [c]))" for a b c
    by simp
  assume "i < length (bottom_descs s)" "i < length (top_descs s)" "i < length (conv_descs s)"
  then show ?thesis
    by (simp add: destroy_descs_def release_live bindE_set_live set_live_bind e
        del: release_list.simps)
qed

lemma destroy_stream_live:
  "g < length (stream s) \<Longrightarrow> g < length (handle s) \<Longrightarrow>
   destroy_stream g (s\<lparr>live := l\<rparr>) = set_live s (release_list [stream s ! g, handle s ! g] l)"
proof -
  have e: "release_list [a, b] l = bindE (release_list [a] l) (release_list [b])" for a b
    by simp
  assume "g < length (stream s)" "g < length (handle s)"
  then show ?thesis
    by (simp add: destroy_stream_def release_live bindE_set_live set_live_bind e
        del: release_list.simps)
qed

lemma destroy_descs_loop:
  "n \<le> length (bottom_descs s) \<Longrightarrow> n \<le> length (top_descs s) \<Longrightarrow> n \<le> length (conv_descs s) \<Longrightarrow>
   for_loop n destroy_descs (s\<lparr>live := l\<rparr>) =
     set_live s (release_list
       (concat (map (\<lambda>i. [bottom_descs s ! i, top_descs s ! i, conv_descs s ! i]) [0..<n])) l)"
proof (induction n)
  case 0
  show ?case by (simp add: set_live_def)
next
  case (Suc n)
  then have IH: "for_loop n destroy_descs (s\<lparr>live := l\<rparr>) =
     set_live s (release_list
       (concat (map (\<lambda>i. [bottom_descs s ! i, top_descs s ! i, conv_descs s ! i]) [0..<n])) l)"
    by simp
  from Suc.prems have b: "n < length (bottom_descs s)" "n < length (top_descs s)"
    "n < length (conv_descs s)" by simp_all
  show ?case
    by (simp add: IH bindE_set_live destroy_descs_live [OF b] set_live_bind release_list_append
        del: release_list.simps)
qed

lemma destroy_stream_loop:
  "n \<le> length (stream s) \<Longrightarrow> n \<le> length (handle s) \<Longrightarrow>
   for_loop n destroy_stream (s\<lparr>live := l\<rparr>) =
     set_live s (release_list (concat (map (\<lambda>g. [stream s ! g, handle s ! g]) [0..<n])) l)"
proof (induction n)
  case 0
  show ?case by (simp add: set_live_def)
next
  case (Suc n)
  then have IH: "for_loop n destroy_stream (s\<lparr>live := l\<rparr>) =
     set_live s (release_list (concat (map (\<lambda>g. [stream s ! g, handle s ! g]) [0..<n])) l)"
    by simp
  from Suc.prems have b: "n < length (stream s)" "n < length (handle s)" by simp_all
  show ?case
    by (simp add: IH bindE_set_live destroy_stream_live [OF b] set_live_bind release_list_append
        del: release_list.simps)
qed

lemma release_list_bind1:
  "bindE (release_list xs l) (\<lambda>l. bindE (release_list ys l) f) =
   bindE (release_list (xs @ ys) l) f"
  by (simp add: release_list_append bindE_assoc)

lemma release_list_bind2:
  "bindE (release_list xs l) (release_list ys) = release_list (xs @ ys) l"
  by (simp add: release_list_append)

lemma destructor_live:
  assumes "handles_setup s"
    and "length (top_descs s) = length (bottom_descs s)"
    and "length (conv_descs s) = length (bottom_descs s)"
    and "CUDNN_STREAMS_DEPTHWISE \<le> length (stream s)"
    and "CUDNN_STREAMS_DEPTHWISE \<le> length (handle s)"
  shows "destructor (s\<lparr>live := l\<rparr>) = set_live s (release_list (owned s) l)"
  using assms
  by (simp add: destructor_def owned_def destroy_descs_loop destroy_stream_loop release_live
      cudaFree_live bindE_set_live set_live_bind release_list_bind1 release_list_bind2
      del: release_list.simps)

lemma destructor_eq:
  assumes "handles_setup s"
    and "length (top_descs s) = length (bottom_descs s)"
    and "length (conv_descs s) = length (bottom_descs s)"
    and "CUDNN_STREAMS_DEPTHWISE \<le> length (stream s)"
    and "CUDNN_STREAMS_DEPTHWISE \<le> length (handle s)"
  shows "destructor s = set_live s (release_list (owned s) (live s))"
  using destructor_live [OF assms, of "live s"] by simp

lemma release_list_ok:
  "distinct rs \<Longrightarrow> set rs \<subseteq> set l \<Longrightarrow> release_list rs l = Inr (fold remove1 rs l)"
proof (induction rs arbitrary: l)
  case Nil
  show ?case by simp
next
  case (Cons r rs)
  have "set rs \<subseteq> set (remove1 r l)"
  proof
    fix x assume x: "x \<in> set rs"
    with Cons.prems have "x \<noteq> r" "x \<in> set l" by auto
    then show "x \<in> set (remove1 r l)" by (simp add: in_set_remove1)
  qed
  with Cons.IH [of "remove1 r l"] Cons.prems show ?case by simp
qed

lemma set_fold_remove1:
  "distinct l \<Longrightarrow> set (fold remove1 rs l) = set l - set rs"
proof (induction rs arbitrary: l)
  case Nil
  show ?case by simp
next
  case (Cons r rs)
  from Cons.prems have "distinct (remove1 r l)" by simp
  from Cons.IH [OF this] Cons.prems show ?case by auto
qed

lemma owned_example_live:
  "distinct (owned example_layer) \<and> set (owned example_layer) \<subseteq> set (live example_layer) \<and>
   fold remove1 (owned example_layer) (live example_layer) = []"
  by code_simp

text \<open>
  Claim C9, as amended. The destructor does nothing, and reports no error, when the
  handles were never set up. After a completed setup it returns without a fault,
  releases each resource the layer owns exactly once (descriptors, streams, handles,
  the device buffer, the host arrays) and changes no member: \<^verbatim>\<open>handles_setup_\<close> stays
  set and every pointer keeps its value.
\<close>

theorem destructor_releases_once:
  "(\<not> handles_setup s \<longrightarrow> destructor s = Inr s) \<and>
   (handles_setup s \<and> length (top_descs s) = length (bottom_descs s) \<and>
    length (conv_descs s) = length (bottom_descs s) \<and>
    CUDNN_STREAMS_DEPTHWISE \<le> length (stream s) \<and>
    CUDNN_STREAMS_DEPTHWISE \<le> length (handle s) \<and>
    distinct (owned s) \<and> set (owned s) \<subseteq> set (live s) \<longrightarrow>
      destructor s = Inr (s\<lparr>live := fold remove1 (owned s) (live s)\<rparr>) \<and>
      (distinct (live s) \<longrightarrow>
         set (fold remove1 (owned s) (live s)) = set (live s) - set (owned s)))"
proof (intro conjI impI)
  assume "\<not> handles_setup s"
  then show "destructor s = Inr s" by (simp add: destructor_def)
next
  assume a: "handles_setup s \<and> length (top_descs s) = length (bottom_descs s) \<and>
    length (conv_descs s) = length (bottom_descs s) \<and>
    CUDNN_STREAMS_DEPTHWISE \<le> length (stream s) \<and>
    CUDNN_STREAMS_DEPTHWISE \<le> length (handle s) \<and>
    distinct (owned s) \<and> set (owned s) \<subseteq> set (live s)"
  then have "destructor s = set_live s (release_list (owned s) (live s))"
    by (intro destructor_eq) simp_all
  also from a have "release_list (owned s) (live s) = Inr (fold remove1 (owned s) (live s))"
    by (intro release_list_ok) simp_all
  finally show "destructor s = Inr (s\<lparr>live := fold remove1 (owned s) (live s)\<rparr>)"
    by (simp add: set_live_def)
next
  assume "distinct (live s)"
  then show "set (fold remove1 (owned s) (live s)) = set (live s) - set (owned s)"
    by (rule set_fold_remove1)
qed

theorem destructor_releases_once_witness:
  "destructor example_base = Inr example_base \<and>
   destructor example_layer = Inr (example_layer\<lparr>live := []\<rparr>)"
proof -
  have "\<not> handles_setup example_base"
    by (simp add: example_base_def)
  with destructor_releases_once [of example_base, THEN conjunct1]
  have 1: "destructor example_base = Inr example_base" by simp
  have "handles_setup example_layer \<and>
    length (top_descs example_layer) = length (bottom_descs example_layer) \<and>
    length (conv_descs example_layer) = length (bottom_descs example_layer) \<and>
    CUDNN_STREAMS_DEPTHWISE \<le> length (stream example_layer) \<and>
    CUDNN_STREAMS_DEPTHWISE \<le> length (handle example_layer)"
    by (simp add: example_layer_def CUDNN_STREAMS_DEPTHWISE_def)
  with destructor_releases_once [of example_layer, THEN conjunct2] owned_example_live
  have "destructor example_layer =
      Inr (example_layer\<lparr>live := fold remove1 (owned example_layer) (live example_layer)\<rparr>)"
    by simp
  with owned_example_live have 2: "destructor example_layer = Inr (example_layer\<lparr>live := []\<rparr>)"
    by simp
  from 1 2 show ?thesis by simp
qed

text \<open>
  Claim C9, as stated, fails: on the layer that \<^verbatim>\<open>LayerSetUp\<close> produces (lemma
  \<open>LayerSetUp_example\<close>) the destructor returns once, leaving \<^verbatim>\<open>handles_setup_\<close> set;
  run a second time it releases the first bottom descriptor again.
\<close>

theorem destructor_twice_counterexample:
  "destructor example_layer = Inr (example_layer\<lparr>live := []\<rparr>) \<and>
   destructor (example_layer\<lparr>live := []\<rparr>) = Inl (DoubleRelease (BottomDesc 0))"
  by code_simp

text \<open>
  Claim C3, evaluated on the code: one bound input whose plan needs 1024 bytes per
  stream, an empty pool, and an allocation that fails. \<^verbatim>\<open>Reshape\<close> returns, the three
  sizes are 0, the algorithms are the zero-workspace defaults, the pool size is 0 and
  the buffer is null; but the loop of lines 231--233 runs after the failure branch,
  so the regions of streams 1 and 2 are \<open>NULL + 1024\<close> and \<open>NULL + 2048\<close>, not
  null.
\<close>

theorem Reshape_allocation_failure_pointers:
  "\<exists>s'. Reshape 1 failing_backend example_layer = Inr s' \<and>
      workspace_fwd_sizes s' = [0] \<and> workspace_bwd_filter_sizes s' = [0] \<and>
      workspace_bwd_data_sizes s' = [0] \<and>
      fwd_algo s' = [CUDNN_CONVOLUTION_FWD_ALGO_IMPLICIT_GEMM] \<and>
      bwd_filter_algo s' = [CUDNN_CONVOLUTION_BWD_FILTER_ALGO_0] \<and>
      bwd_data_algo s' = [CUDNN_CONVOLUTION_BWD_DATA_ALGO_0] \<and>
      workspaceSizeInBytes s' = 0 \<and> workspaceData s' = 0 \<and>
      workspace s' = [0, 1024, 2048]"
proof (intro exI conjI)
  show "Reshape 1 failing_backend example_layer =
     Inr (example_layer\<lparr>bottom_offset := 12, top_offset := 24, workspace := [0, 1024, 2048]\<rparr>)"
    by (rule Reshape_failing_example)
qed (simp_all add: example_layer_def
      CUDNN_CONVOLUTION_FWD_ALGO_IMPLICIT_GEMM_def CUDNN_CONVOLUTION_BWD_FILTER_ALGO_0_def
      CUDNN_CONVOLUTION_BWD_DATA_ALGO_0_def)

lemma failed_allocation_pointers:
  assumes "Reshape_workspace n be s = Inr s'"
    and "workspaceSizeInBytes s < total_max_workspace n s"
    and "cudaMalloc be (total_max_workspace n s) = None"
  shows "workspaceSizeInBytes s' = 0 \<and> workspaceData s' = 0 \<and>
         workspace s' ! 0 = 0 \<and> workspace s' ! 1 = max_workspace n s \<and>
         workspace s' ! 2 = 2 * max_workspace n s \<and> max_workspace n s \<noteq> 0"
proof -
  from assms(2) have "total_max_workspace n s \<noteq> 0"
    by (metis word_not_simps(1))
  then have nz: "max_workspace n s \<noteq> 0"
    by (auto simp: total_max_workspace_def)
  from Reshape_workspace_result [OF assms(1)] assms(2,3)
  have "workspaceSizeInBytes s' = 0" "workspaceData s' = 0"
    and w: "\<forall>g<CUDNN_STREAMS_DEPTHWISE. workspace s' ! g = of_nat g * max_workspace n s"
    by auto
  from w [rule_format, of 0] w [rule_format, of 1] w [rule_format, of 2]
  have "workspace s' ! 0 = 0" "workspace s' ! 1 = max_workspace n s"
    "workspace s' ! 2 = 2 * max_workspace n s"
    by (simp_all add: CUDNN_STREAMS_DEPTHWISE_def)
  with nz \<open>workspaceSizeInBytes s' = 0\<close> \<open>workspaceData s' = 0\<close> show ?thesis by simp
qed

theorem scratch_pool_size_and_slices_witness:
  "total_max_workspace 1 example_planned = 3072 \<and>
   unat (total_max_workspace 1 example_planned) = 3072 \<and>
   (\<exists>s'. Reshape_workspace 1 working_backend example_planned = Inr s' \<and>
      workspaceSizeInBytes s' = 3072 \<and> workspaceData s' = 4096 \<and>
      workspace s' ! 0 = 4096 \<and> workspace s' ! 1 = 5120 \<and> workspace s' ! 2 = 6144)"
proof -
  let ?R = "example_planned\<lparr>workspaceSizeInBytes := 3072, workspaceData := 4096,
               workspace := [4096, 5120, 6144], live := DeviceMem 4096 # live example_planned\<rparr>"
  note t = scratch_pool_size_and_slices [of 1 example_planned working_backend,
      unfolded perStreamMax_example]
  from t [THEN conjunct1] have 1: "total_max_workspace 1 example_planned = 3072" by simp
  from t [THEN conjunct2, THEN conjunct1] have 2: "unat (total_max_workspace 1 example_planned) = 3072"
    by (simp add: 1)
  have c: "workspaceSizeInBytes example_planned < total_max_workspace 1 example_planned"
    "cudaMalloc working_backend (total_max_workspace 1 example_planned) = Some 4096"
    unfolding 1 by (simp_all add: example_planned_def example_layer_def working_backend_def)
  note t3 = t [THEN conjunct2, THEN conjunct2, THEN conjunct1, rule_format]
  have 3: "workspaceSizeInBytes ?R = 1024 * 3 \<and> workspaceData ?R = 4096 \<and>
           (\<forall>g<3. workspace ?R ! g = 4096 + of_nat g * 1024)"
    by (rule t3 [OF conjI [OF Reshape_working_example conjI [OF c]]])
  then have "workspace ?R ! 0 = 4096 + of_nat 0 * 1024" "workspace ?R ! 1 = 4096 + of_nat 1 * 1024"
    "workspace ?R ! 2 = 4096 + of_nat 2 * 1024"
    by simp_all
  then have 4: "workspace ?R ! 0 = 4096 \<and> workspace ?R ! 1 = 5120 \<and> workspace ?R ! 2 = 6144"
    by simp
  from 3 have 5: "workspaceSizeInBytes ?R = 3072 \<and> workspaceData ?R = 4096" by simp
  have "\<exists>s'. Reshape_workspace 1 working_backend example_planned = Inr s' \<and>
      workspaceSizeInBytes s' = 3072 \<and> workspaceData s' = 4096 \<and>
      workspace s' ! 0 = 4096 \<and> workspace s' ! 1 = 5120 \<and> workspace s' ! 2 = 6144"
    by (rule exI [where x = "?R"])
      (intro conjI Reshape_working_example 4 [THEN conjunct1]
        4 [THEN conjunct2, THEN conjunct1] 4 [THEN conjunct2, THEN conjunct2]
        5 [THEN conjunct1] 5 [THEN conjunct2])
  with 1 2 show ?thesis by (intro conjI)
qed



theorem configuration_checks_witness:
  "LayerSetUp 1 True example_base = Inr example_layer \<and>
   \<not> (\<exists>msg. LayerSetUp 1 True example_base = Inl (CheckFailed msg)) \<and>
   \<not> (\<exists>msg. Reshape 1 working_backend example_layer = Inl (CheckFailed msg)) \<and>
   (\<exists>msg. LayerSetUp 1 True (example_base\<lparr>param_group := 3\<rparr>) = Inl (CheckFailed msg)) \<and>
   LayerSetUp 1 True (example_base\<lparr>param_group := 0\<rparr>) = Inl DivisionByZero \<and>
   (\<exists>msg. Reshape 1 working_backend (example_layer\<lparr>num_spatial_axes := 3\<rparr>) =
      Inl (CheckFailed msg))"
proof -
  have 1: "\<not> (\<exists>msg. LayerSetUp 1 True example_base = Inl (CheckFailed msg))"
    using configuration_checks [of 1 True example_base working_backend]
    by (simp add: example_base_def)
  have 2: "\<not> (\<exists>msg. Reshape 1 working_backend example_layer = Inl (CheckFailed msg))"
    using configuration_checks [of 1 True example_layer working_backend]
    by (simp add: example_layer_def)
  have 3: "\<exists>msg. LayerSetUp 1 True (example_base\<lparr>param_group := 3\<rparr>) = Inl (CheckFailed msg)"
    using configuration_checks [of 1 True "example_base\<lparr>param_group := 3\<rparr>" working_backend]
    by (simp add: example_base_def)
  have 4: "LayerSetUp 1 True (example_base\<lparr>param_group := 0\<rparr>) = Inl DivisionByZero"
    using configuration_checks [of 1 True "example_base\<lparr>param_group := 0\<rparr>" working_backend]
    by simp
  have 5: "\<exists>msg. Reshape 1 working_backend (example_layer\<lparr>num_spatial_axes := 3\<rparr>) =
      Inl (CheckFailed msg)"
    using configuration_checks [of 1 True "example_layer\<lparr>num_spatial_axes := 3\<rparr>" working_backend]
    by simp
  show ?thesis by (intro conjI) (rule LayerSetUp_example 1 2 3 4 5)+
qed

end
